theory Spec2Isabelle
  imports Complex_Main "HOL-Library.Word" "HOL-Library.Monad_Syntax"
begin

unbundle bit_operations_syntax

section \<open>Camera and input state of the render loop\<close>

text \<open>
  The two render-loop translation units keep the camera and the input state in global
  variables and update them from the keyboard and mouse callbacks. The globals are one
  record here and every callback is a function from the record to the updated record.
  A C++ \<open>float\<close> is idealised as a real number: rounding is not modelled.
\<close>

datatype vec3 = vec3 (x_of: real) (y_of: real) (z_of: real)

text \<open>
  The vector library's operations the input routines use: component-wise sum and
  difference, scaling from either side, dot and cross product, and normalisation, which
  scales a vector by the inverse square root of its dot product with itself.
\<close>

fun vec_add :: "vec3 \<Rightarrow> vec3 \<Rightarrow> vec3" where
  "vec_add (vec3 a b c) (vec3 d e f) = vec3 (a + d) (b + e) (c + f)"

fun vec_sub :: "vec3 \<Rightarrow> vec3 \<Rightarrow> vec3" where
  "vec_sub (vec3 a b c) (vec3 d e f) = vec3 (a - d) (b - e) (c - f)"

fun scalar_mul :: "real \<Rightarrow> vec3 \<Rightarrow> vec3" where
  "scalar_mul k (vec3 a b c) = vec3 (k * a) (k * b) (k * c)"

fun mul_scalar :: "vec3 \<Rightarrow> real \<Rightarrow> vec3" where
  "mul_scalar (vec3 a b c) k = vec3 (a * k) (b * k) (c * k)"

fun glm_dot :: "vec3 \<Rightarrow> vec3 \<Rightarrow> real" where
  "glm_dot (vec3 a b c) (vec3 d e f) = a * d + b * e + c * f"

fun glm_cross :: "vec3 \<Rightarrow> vec3 \<Rightarrow> vec3" where
  "glm_cross (vec3 a b c) (vec3 d e f) =
     vec3 (b * f - e * c) (c * d - f * a) (a * e - d * b)"

definition glm_inversesqrt :: "real \<Rightarrow> real" where
  "glm_inversesqrt v = 1 / sqrt v"

definition glm_normalize :: "vec3 \<Rightarrow> vec3" where
  "glm_normalize v = mul_scalar v (glm_inversesqrt (glm_dot v v))"

definition glm_radians :: "real \<Rightarrow> real" where
  "glm_radians degrees = degrees * (pi / 180)"

record globals =
  cameraPos :: vec3
  cameraFront :: vec3
  cameraUp :: vec3
  yaw :: real
  pitch :: real
  lastX :: real
  lastY :: real
  firstMouse :: bool
  cameraSpeed :: real
  keys :: "char \<Rightarrow> bool"

definition WIDTH :: int where
  "WIDTH = 2400"

definition HEIGHT :: int where
  "HEIGHT = 1800"

definition initial_globals :: globals where
  "initial_globals =
     \<lparr> cameraPos = vec3 0 0 5,
       cameraFront = vec3 0 0 (- 1),
       cameraUp = vec3 0 1 0,
       yaw = - 90,
       pitch = 0,
       lastX = real_of_int WIDTH / 2,
       lastY = real_of_int HEIGHT / 2,
       firstMouse = True,
       cameraSpeed = 0.05,
       keys = (\<lambda>k. False) \<rparr>"

definition keyboardDown :: "char \<Rightarrow> globals \<Rightarrow> globals" where
  "keyboardDown key g = g\<lparr>keys := (keys g)(key := True)\<rparr>"

definition keyboardUp :: "char \<Rightarrow> globals \<Rightarrow> globals" where
  "keyboardUp key g = g\<lparr>keys := (keys g)(key := False)\<rparr>"

subsection \<open>Keyboard processing\<close>

text \<open>
  One statement \<open>if (keys[k]) body;\<close> of the keyboard routines: a transformer of the
  globals that runs \<open>body\<close> when the key is held.
\<close>

definition if_key :: "char \<Rightarrow> (globals \<Rightarrow> globals) \<Rightarrow> globals \<Rightarrow> globals" where
  "if_key k body g = (if keys g k then body g else g)"

text \<open>\<open>processKeyboard\<close>: the lower-case variant, four movement keys.\<close>

definition processKeyboard :: "globals \<Rightarrow> globals" where
  "processKeyboard g0 =
     (let g = if_key CHR ''w'' (\<lambda>g. g\<lparr>cameraPos :=
                vec_add (cameraPos g) (scalar_mul (cameraSpeed g) (cameraFront g))\<rparr>) g0;
          g = if_key CHR ''s'' (\<lambda>g. g\<lparr>cameraPos :=
                vec_sub (cameraPos g) (scalar_mul (cameraSpeed g) (cameraFront g))\<rparr>) g;
          g = if_key CHR ''a'' (\<lambda>g. g\<lparr>cameraPos :=
                vec_sub (cameraPos g)
                  (mul_scalar (glm_normalize (glm_cross (cameraFront g) (cameraUp g))) (cameraSpeed g))\<rparr>) g;
          g = if_key CHR ''d'' (\<lambda>g. g\<lparr>cameraPos :=
                vec_add (cameraPos g)
                  (mul_scalar (glm_normalize (glm_cross (cameraFront g) (cameraUp g))) (cameraSpeed g))\<rparr>) g
      in g)"

text \<open>\<open>processKeyboardInput\<close>: the upper-case variant, with the two speed keys.\<close>

definition processKeyboardInput :: "globals \<Rightarrow> globals" where
  "processKeyboardInput g0 =
     (let g = if_key CHR ''W'' (\<lambda>g. g\<lparr>cameraPos :=
                vec_add (cameraPos g) (scalar_mul (cameraSpeed g) (cameraFront g))\<rparr>) g0;
          g = if_key CHR ''S'' (\<lambda>g. g\<lparr>cameraPos :=
                vec_sub (cameraPos g) (scalar_mul (cameraSpeed g) (cameraFront g))\<rparr>) g;
          g = if_key CHR ''A'' (\<lambda>g. g\<lparr>cameraPos :=
                vec_sub (cameraPos g)
                  (mul_scalar (glm_normalize (glm_cross (cameraFront g) (cameraUp g))) (cameraSpeed g))\<rparr>) g;
          g = if_key CHR ''D'' (\<lambda>g. g\<lparr>cameraPos :=
                vec_add (cameraPos g)
                  (mul_scalar (glm_normalize (glm_cross (cameraFront g) (cameraUp g))) (cameraSpeed g))\<rparr>) g;
          g = if_key CHR ''R'' (\<lambda>g. g\<lparr>cameraSpeed := cameraSpeed g + 0.01\<rparr>) g;
          g = if_key CHR ''F'' (\<lambda>g. g\<lparr>cameraSpeed := cameraSpeed g - 0.01\<rparr>) g
      in g)"

subsection \<open>Mouse look\<close>

text \<open>
  \<open>mouseMotion\<close> (integer window coordinates, sensitivity 0.1) and
  \<open>processMouseMovement\<close> (float coordinates, sensitivity 0.05) share one body up to
  the argument type and the constant.
\<close>

definition mouse_body :: "real \<Rightarrow> real \<Rightarrow> real \<Rightarrow> globals \<Rightarrow> globals" where
  "mouse_body sensitivity x y g =
     (let g1 = (if firstMouse g then g\<lparr>lastX := x, lastY := y, firstMouse := False\<rparr> else g);
          xoffset = x - lastX g1;
          yoffset = lastY g1 - y;
          g2 = g1\<lparr>lastX := x, lastY := y\<rparr>;
          xoffset = xoffset * sensitivity;
          yoffset = yoffset * sensitivity;
          g3 = g2\<lparr>yaw := yaw g2 + xoffset, pitch := pitch g2 + yoffset\<rparr>;
          g4 = (if pitch g3 > 89 then g3\<lparr>pitch := 89\<rparr> else g3);
          g5 = (if pitch g4 < - 89 then g4\<lparr>pitch := - 89\<rparr> else g4);
          front = vec3 (cos (glm_radians (yaw g5)) * cos (glm_radians (pitch g5)))
                       (sin (glm_radians (pitch g5)))
                       (sin (glm_radians (yaw g5)) * cos (glm_radians (pitch g5)))
      in g5\<lparr>cameraFront := glm_normalize front\<rparr>)"

definition mouseMotion :: "int \<Rightarrow> int \<Rightarrow> globals \<Rightarrow> globals" where
  "mouseMotion x y g = mouse_body 0.1 (real_of_int x) (real_of_int y) g"

definition processMouseMovement :: "real \<Rightarrow> real \<Rightarrow> globals \<Rightarrow> globals" where
  "processMouseMovement xpos ypos g = mouse_body 0.05 xpos ypos g"

text \<open>The windowing system delivering a sequence of pointer positions, oldest first.\<close>

fun mouse_events :: "(int \<times> int) list \<Rightarrow> globals \<Rightarrow> globals" where
  "mouse_events [] g = g"
| "mouse_events ((x, y) # es) g = mouse_events es (mouseMotion x y g)"

fun mouse_movements :: "(real \<times> real) list \<Rightarrow> globals \<Rightarrow> globals" where
  "mouse_movements [] g = g"
| "mouse_movements ((x, y) # es) g = mouse_movements es (processMouseMovement x y g)"

text \<open>The spherical-to-Cartesian conversion of a yaw and a pitch given in degrees.\<close>

definition spherical :: "real \<Rightarrow> real \<Rightarrow> vec3" where
  "spherical yw pt =
     vec3 (cos (glm_radians yw) * cos (glm_radians pt))
          (sin (glm_radians pt))
          (sin (glm_radians yw) * cos (glm_radians pt))"

text \<open>What keyboard processing may not touch: the globals with position and speed blanked.\<close>

definition outside_position_and_speed :: "globals \<Rightarrow> globals" where
  "outside_position_and_speed g = g\<lparr>cameraPos := vec3 0 0 0, cameraSpeed := 0\<rparr>"

section \<open>The imported scene\<close>

text \<open>
  The scene graph the external importer hands to the loader, with the fields the loader
  reads. A C array with its element count is a list (the count is the length); a pointer
  that may be null is an option. Reading an array past its end has no defined result in
  C++: here it is \<open>None\<close>, and the rest of the routine is not run.
\<close>

type_synonym GLuint = "32 word"

type_synonym GLfloat = real

datatype aiVector3D = aiVector3D (ai_x: GLfloat) (ai_y: GLfloat) (ai_z: GLfloat)

datatype aiFace = aiFace (mIndices: "GLuint list")

datatype aiTextureType = aiTextureType_NONE | aiTextureType_DIFFUSE | aiTextureType_SPECULAR

datatype aiMaterial = aiMaterial (GetTexture: "aiTextureType \<Rightarrow> nat \<Rightarrow> string option")

record aiMesh =
  mVertices :: "aiVector3D list"
  mNormals :: "aiVector3D list option"
  mTextureCoords :: "nat \<Rightarrow> aiVector3D list option"
  mFaces :: "aiFace list"
  mMaterialIndex :: nat

datatype aiNode = aiNode (node_mMeshes: "nat list") (mChildren: "aiNode list")

record aiScene =
  mFlags :: "32 word"
  mRootNode :: "aiNode option"
  mMeshes :: "aiMesh list"
  mMaterials :: "aiMaterial list"

text \<open>
  From the importer's headers: the incomplete flag is bit 0 of the scene flags, and a mesh
  has normals when its normal array is present and it has at least one vertex.
\<close>

definition AI_SCENE_FLAGS_INCOMPLETE :: "32 word" where
  "AI_SCENE_FLAGS_INCOMPLETE = 1"

definition mNumVertices :: "aiMesh \<Rightarrow> nat" where
  "mNumVertices mesh = length (mVertices mesh)"

definition HasNormals :: "aiMesh \<Rightarrow> bool" where
  "HasNormals mesh = (mNormals mesh \<noteq> None \<and> mNumVertices mesh > 0)"

text \<open>Reading element \<open>i\<close> of an array.\<close>

definition elem_at :: "'a list \<Rightarrow> nat \<Rightarrow> 'a option" where
  "elem_at xs i = (if i < length xs then Some (xs ! i) else None)"

section \<open>The graphics context, the console and the files\<close>

text \<open>
  The loader talks to the graphics library only through calls; the context is the list
  of calls made so far, oldest first, and the next unused object name of each kind
  (\<open>glGen*\<close> hands out unused names; a fresh context starts at 1, since 0 is the
  name of no object). \<open>cerr\<close> holds the lines written to the error stream.
\<close>

datatype gl_enum =
    GL_TEXTURE_2D | GL_TEXTURE_WRAP_S | GL_TEXTURE_WRAP_T
  | GL_TEXTURE_MIN_FILTER | GL_TEXTURE_MAG_FILTER
  | GL_REPEAT | GL_LINEAR_MIPMAP_LINEAR | GL_LINEAR
  | GL_RED | GL_RGB | GL_RGBA | GL_UNSIGNED_BYTE
  | GL_ARRAY_BUFFER | GL_ELEMENT_ARRAY_BUFFER | GL_STATIC_DRAW
  | GL_FLOAT | GL_UNSIGNED_INT | GL_TRIANGLES | GL_TEXTURE0

datatype buffer_data = FloatData "GLfloat list" | UIntData "GLuint list"

datatype gl_call =
    glGenVertexArrays GLuint
  | glGenBuffers GLuint
  | glGenTextures GLuint
  | glBindVertexArray GLuint
  | glBindBuffer gl_enum GLuint
  | glBufferData gl_enum nat buffer_data gl_enum
  | glVertexAttribPointer nat nat gl_enum bool nat nat
  | glEnableVertexAttribArray nat
  | glBindTexture gl_enum GLuint
  | glTexParameteri gl_enum gl_enum gl_enum
  | glTexImage2D gl_enum int gl_enum int int int gl_enum gl_enum
  | glGenerateMipmap gl_enum
  | glActiveTexture gl_enum
  | glDrawElements gl_enum nat gl_enum nat
  | glDeleteVertexArrays GLuint
  | glDeleteBuffers GLuint

record world =
  gl_calls :: "gl_call list"
  next_vertex_array :: GLuint
  next_buffer :: GLuint
  next_texture :: GLuint
  cerr :: "string list"

definition fresh_world :: world where
  "fresh_world =
     \<lparr> gl_calls = [], next_vertex_array = 1, next_buffer = 1, next_texture = 1, cerr = [] \<rparr>"

definition gl :: "gl_call \<Rightarrow> world \<Rightarrow> world" where
  "gl c w = w\<lparr>gl_calls := gl_calls w @ [c]\<rparr>"

definition gen_vertex_array :: "world \<Rightarrow> GLuint \<times> world" where
  "gen_vertex_array w =
     (next_vertex_array w,
      gl (glGenVertexArrays (next_vertex_array w)) (w\<lparr>next_vertex_array := next_vertex_array w + 1\<rparr>))"

definition gen_buffer :: "world \<Rightarrow> GLuint \<times> world" where
  "gen_buffer w =
     (next_buffer w, gl (glGenBuffers (next_buffer w)) (w\<lparr>next_buffer := next_buffer w + 1\<rparr>))"

definition gen_texture :: "world \<Rightarrow> GLuint \<times> world" where
  "gen_texture w =
     (next_texture w, gl (glGenTextures (next_texture w)) (w\<lparr>next_texture := next_texture w + 1\<rparr>))"

definition print_cerr :: "string \<Rightarrow> world \<Rightarrow> world" where
  "print_cerr line w = w\<lparr>cerr := cerr w @ [line]\<rparr>"

text \<open>
  The files the loader reads through the two external decoders: the image decoder gives
  the dimensions and the component count of a decoded image, or nothing when the decode
  fails; the importer gives a scene or a null pointer, and its error string.
\<close>

record stb_image =
  width :: int
  height :: int
  nrChannels :: int

record env =
  stbi_load :: "string \<Rightarrow> stb_image option"
  ReadFile :: "string \<Rightarrow> aiScene option"
  GetErrorString :: "string \<Rightarrow> string"

section \<open>The model loader\<close>

record Texture =
  id_of :: GLuint
  type_of :: string
  path_of :: string

record Mesh =
  vertices :: "GLfloat list"
  indices :: "GLuint list"
  textures :: "Texture list"
  VAO :: GLuint
  VBO :: GLuint
  EBO :: GLuint

record ModelLoader =
  meshes :: "Mesh list"

definition PREFIX_RELATIVE_PATH :: string where
  "PREFIX_RELATIVE_PATH = ''../assets/models/''"

definition sizeof_GLfloat :: nat where
  "sizeof_GLfloat = 4"

definition sizeof_GLuint :: nat where
  "sizeof_GLuint = 4"

subsection \<open>Textures\<close>

definition loadTextureFromFile :: "env \<Rightarrow> string \<Rightarrow> world \<Rightarrow> GLuint \<times> world" where
  "loadTextureFromFile e texturePath w0 =
     (let (textureID, w) = gen_texture w0;
          w = gl (glBindTexture GL_TEXTURE_2D textureID) w;
          w = gl (glTexParameteri GL_TEXTURE_2D GL_TEXTURE_WRAP_S GL_REPEAT) w;
          w = gl (glTexParameteri GL_TEXTURE_2D GL_TEXTURE_WRAP_T GL_REPEAT) w;
          w = gl (glTexParameteri GL_TEXTURE_2D GL_TEXTURE_MIN_FILTER GL_LINEAR_MIPMAP_LINEAR) w;
          w = gl (glTexParameteri GL_TEXTURE_2D GL_TEXTURE_MAG_FILTER GL_LINEAR) w;
          w = (case stbi_load e texturePath of
                 Some data \<Rightarrow>
                   (let format = (if nrChannels data = 1 then GL_RED
                                  else if nrChannels data = 3 then GL_RGB else GL_RGBA);
                        w = gl (glTexImage2D GL_TEXTURE_2D 0 format (width data) (height data) 0
                                  format GL_UNSIGNED_BYTE) w
                    in gl (glGenerateMipmap GL_TEXTURE_2D) w)
               | None \<Rightarrow> print_cerr (''Texture failed to load at path: '' @ texturePath) w);
          w = gl (glBindTexture GL_TEXTURE_2D 0) w
      in (textureID, w))"

definition loadTexture :: "env \<Rightarrow> aiMaterial \<Rightarrow> aiTextureType \<Rightarrow> string \<Rightarrow> world \<Rightarrow> GLuint \<times> world" where
  "loadTexture e material type model_name w =
     (case GetTexture material type 0 of
        Some texturePath \<Rightarrow>
          (let path = PREFIX_RELATIVE_PATH @ ''/'' @ model_name @ ''/'' @ texturePath
           in loadTextureFromFile e path w)
      | None \<Rightarrow> (0, w))"

subsection \<open>Flattening a mesh\<close>

text \<open>
  The body of the vertex loop of \<open>processMesh\<close> at index \<open>i\<close>: the eight values
  it pushes on \<open>vs\<close>.
\<close>

definition vertex_body :: "aiMesh \<Rightarrow> nat \<Rightarrow> GLfloat list \<Rightarrow> GLfloat list option" where
  "vertex_body mesh i vs0 =
     do {
       p \<leftarrow> elem_at (mVertices mesh) i;
       let vs = vs0 @ [ai_x p, ai_y p, ai_z p];
       vs \<leftarrow> (if HasNormals mesh then
                do {
                  normals \<leftarrow> mNormals mesh;
                  n \<leftarrow> elem_at normals i;
                  Some (vs @ [ai_x n, ai_y n, ai_z n])
                }
              else Some (vs @ [0, 0, 0]));
       (case mTextureCoords mesh 0 of
          Some coords \<Rightarrow>
            do {
              t \<leftarrow> elem_at coords i;
              Some (vs @ [ai_x t, ai_y t])
            }
        | None \<Rightarrow> Some (vs @ [0, 0]))
     }"

text \<open>The vertex loop, from index \<open>i\<close> on.\<close>

function vertex_loop :: "aiMesh \<Rightarrow> nat \<Rightarrow> GLfloat list \<Rightarrow> GLfloat list option" where
  "vertex_loop mesh i vs =
     (if i < mNumVertices mesh then
        do {
          vs \<leftarrow> vertex_body mesh i vs;
          vertex_loop mesh (Suc i) vs
        }
      else Some vs)"
  by pat_completeness auto
termination
  by (relation "measure (\<lambda>(mesh, i, vs). mNumVertices mesh - i)") auto

declare vertex_loop.simps [simp del]

text \<open>The index loop nest: every face in order, every index of the face in order.\<close>

definition index_loop :: "aiMesh \<Rightarrow> GLuint list" where
  "index_loop mesh =
     foldl (\<lambda>ixs face. foldl (\<lambda>ixs ix. ixs @ [ix]) ixs (mIndices face)) [] (mFaces mesh)"

text \<open>The texture block of \<open>processMesh\<close>: at most the one diffuse texture.\<close>

definition mesh_textures :: "env \<Rightarrow> aiMesh \<Rightarrow> aiScene \<Rightarrow> string \<Rightarrow> world \<Rightarrow> (Texture list \<times> world) option" where
  "mesh_textures e mesh scene model_name w0 =
     (if 0 \<le> mMaterialIndex mesh then
        do {
          material \<leftarrow> elem_at (mMaterials scene) (mMaterialIndex mesh);
          let (diffuseTexture, w) = loadTexture e material aiTextureType_DIFFUSE model_name w0;
          Some (if diffuseTexture \<noteq> 0
                then [\<lparr> id_of = diffuseTexture, type_of = ''texture_diffuse'',
                         path_of = ''diffuse'' \<rparr>]
                else [], w)
        }
      else Some ([], w0))"

text \<open>
  The buffer block of \<open>processMesh\<close>: the three object names, and the uploads, which
  take the address of element 0 of each vector.
\<close>

definition mesh_buffers :: "GLfloat list \<Rightarrow> GLuint list \<Rightarrow> world \<Rightarrow> ((GLuint \<times> GLuint \<times> GLuint) \<times> world) option" where
  "mesh_buffers vs ixs w0 =
     do {
       let (vao, w) = gen_vertex_array w0;
       let (vbo, w) = gen_buffer w;
       let (ebo, w) = gen_buffer w;
       let w = gl (glBindVertexArray vao) w;
       let w = gl (glBindBuffer GL_ARRAY_BUFFER vbo) w;
       _ \<leftarrow> elem_at vs 0;
       let w = gl (glBufferData GL_ARRAY_BUFFER (length vs * sizeof_GLfloat) (FloatData vs)
                     GL_STATIC_DRAW) w;
       let w = gl (glBindBuffer GL_ELEMENT_ARRAY_BUFFER ebo) w;
       _ \<leftarrow> elem_at ixs 0;
       let w = gl (glBufferData GL_ELEMENT_ARRAY_BUFFER (length ixs * sizeof_GLuint) (UIntData ixs)
                     GL_STATIC_DRAW) w;
       let w = gl (glVertexAttribPointer 0 3 GL_FLOAT False (8 * sizeof_GLfloat) 0) w;
       let w = gl (glEnableVertexAttribArray 0) w;
       let w = gl (glVertexAttribPointer 1 3 GL_FLOAT False (8 * sizeof_GLfloat)
                     (3 * sizeof_GLfloat)) w;
       let w = gl (glEnableVertexAttribArray 1) w;
       let w = gl (glVertexAttribPointer 2 2 GL_FLOAT False (8 * sizeof_GLfloat)
                     (6 * sizeof_GLfloat)) w;
       let w = gl (glEnableVertexAttribArray 2) w;
       let w = gl (glBindVertexArray 0) w;
       Some ((vao, vbo, ebo), w)
     }"

definition processMesh :: "env \<Rightarrow> aiMesh \<Rightarrow> aiScene \<Rightarrow> string \<Rightarrow> world \<Rightarrow> (Mesh \<times> world) option" where
  "processMesh e mesh scene model_name w0 =
     do {
       vs \<leftarrow> vertex_loop mesh 0 [];
       let ixs = index_loop mesh;
       (ts, w) \<leftarrow> mesh_textures e mesh scene model_name w0;
       ((vao, vbo, ebo), w) \<leftarrow> mesh_buffers vs ixs w;
       Some (\<lparr> vertices = vs, indices = ixs, textures = ts, VAO = vao, VBO = vbo, EBO = ebo \<rparr>, w)
     }"

subsection \<open>Walking the node tree\<close>

text \<open>The first loop of \<open>processNode\<close>: the meshes the node itself refers to.\<close>

fun node_meshes :: "env \<Rightarrow> nat list \<Rightarrow> aiScene \<Rightarrow> string \<Rightarrow> ModelLoader \<times> world \<Rightarrow> (ModelLoader \<times> world) option" where
  "node_meshes e [] scene model_name lw = Some lw"
| "node_meshes e (k # ks) scene model_name (ld, w) =
     do {
       mesh \<leftarrow> elem_at (mMeshes scene) k;
       (m, w) \<leftarrow> processMesh e mesh scene model_name w;
       node_meshes e ks scene model_name (ld\<lparr>meshes := meshes ld @ [m]\<rparr>, w)
     }"

text \<open>\<open>processNode\<close>, and its second loop over the children.\<close>

fun processNode :: "env \<Rightarrow> aiNode \<Rightarrow> aiScene \<Rightarrow> string \<Rightarrow> ModelLoader \<times> world \<Rightarrow> (ModelLoader \<times> world) option"
  and node_children :: "env \<Rightarrow> aiNode list \<Rightarrow> aiScene \<Rightarrow> string \<Rightarrow> ModelLoader \<times> world \<Rightarrow> (ModelLoader \<times> world) option" where
  "processNode e (aiNode ks cs) scene model_name lw =
     do {
       lw \<leftarrow> node_meshes e ks scene model_name lw;
       node_children e cs scene model_name lw
     }"
| "node_children e [] scene model_name lw = Some lw"
| "node_children e (c # cs) scene model_name lw =
     do {
       lw \<leftarrow> processNode e c scene model_name lw;
       node_children e cs scene model_name lw
     }"

definition loadModel :: "env \<Rightarrow> string \<Rightarrow> ModelLoader \<times> world \<Rightarrow> (ModelLoader \<times> world) option" where
  "loadModel e model_name lw =
     (let (ld, w) = lw;
          ld = ld\<lparr>meshes := []\<rparr>;
          file = PREFIX_RELATIVE_PATH @ ''/'' @ model_name @ ''/'' @ model_name @ ''.obj'';
          failed = Some (ld, print_cerr (''ERROR::ASSIMP:: '' @ GetErrorString e file) w)
      in case ReadFile e file of
           None \<Rightarrow> failed
         | Some scene \<Rightarrow>
             (if mFlags scene AND AI_SCENE_FLAGS_INCOMPLETE \<noteq> 0 then failed
              else case mRootNode scene of
                     None \<Rightarrow> failed
                   | Some rootNode \<Rightarrow> processNode e rootNode scene model_name (ld, w)))"

subsection \<open>Drawing and releasing\<close>

text \<open>The body of the loop of \<open>draw\<close>, for one mesh.\<close>

definition draw_mesh :: "Mesh \<Rightarrow> world \<Rightarrow> world" where
  "draw_mesh mesh w0 =
     (let w = (case textures mesh of
                 [] \<Rightarrow> w0
               | t # _ \<Rightarrow> gl (glBindTexture GL_TEXTURE_2D (id_of t)) (gl (glActiveTexture GL_TEXTURE0) w0));
          w = gl (glBindVertexArray (VAO mesh)) w;
          w = gl (glDrawElements GL_TRIANGLES (length (indices mesh)) GL_UNSIGNED_INT 0) w;
          w = gl (glBindVertexArray 0) w
      in w)"


text \<open>The destructor of the loader.\<close>

definition destroy :: "ModelLoader \<Rightarrow> world \<Rightarrow> world" where
  "destroy ld w =
     foldl (\<lambda>w mesh. gl (glDeleteBuffers (EBO mesh))
                       (gl (glDeleteBuffers (VBO mesh))
                          (gl (glDeleteVertexArrays (VAO mesh)) w)))
           w (meshes ld)"

section \<open>What the loader is specified to produce\<close>

text \<open>
  The group of eight values of source vertex \<open>i\<close>: the position, then the normal or
  zeros when the mesh has no normals, then the first texture-coordinate channel or zeros
  when the mesh has none.
\<close>

definition vertex_group :: "aiMesh \<Rightarrow> nat \<Rightarrow> GLfloat list" where
  "vertex_group mesh i =
     (let p = mVertices mesh ! i;
          n = (case mNormals mesh of Some normals \<Rightarrow> normals ! i | None \<Rightarrow> aiVector3D 0 0 0);
          t = (case mTextureCoords mesh 0 of Some coords \<Rightarrow> coords ! i | None \<Rightarrow> aiVector3D 0 0 0)
      in [ai_x p, ai_y p, ai_z p, ai_x n, ai_y n, ai_z n, ai_x t, ai_y t])"

definition interleaved :: "aiMesh \<Rightarrow> GLfloat list" where
  "interleaved mesh = concat (map (vertex_group mesh) [0..<mNumVertices mesh])"

text \<open>The per-vertex arrays that are present hold an entry for every vertex.\<close>

definition arrays_ok :: "aiMesh \<Rightarrow> bool" where
  "arrays_ok mesh =
     ((case mNormals mesh of Some normals \<Rightarrow> mNumVertices mesh \<le> length normals | None \<Rightarrow> True)
      \<and> (case mTextureCoords mesh 0 of Some coords \<Rightarrow> mNumVertices mesh \<le> length coords | None \<Rightarrow> True))"

text \<open>The calls of the buffer block, for given object names and vectors.\<close>

definition upload_calls :: "GLuint \<Rightarrow> GLuint \<Rightarrow> GLuint \<Rightarrow> GLfloat list \<Rightarrow> GLuint list \<Rightarrow> gl_call list" where
  "upload_calls vao vbo ebo vs ixs =
     [glGenVertexArrays vao, glGenBuffers vbo, glGenBuffers ebo,
      glBindVertexArray vao,
      glBindBuffer GL_ARRAY_BUFFER vbo,
      glBufferData GL_ARRAY_BUFFER (length vs * 4) (FloatData vs) GL_STATIC_DRAW,
      glBindBuffer GL_ELEMENT_ARRAY_BUFFER ebo,
      glBufferData GL_ELEMENT_ARRAY_BUFFER (length ixs * 4) (UIntData ixs) GL_STATIC_DRAW,
      glVertexAttribPointer 0 3 GL_FLOAT False 32 0, glEnableVertexAttribArray 0,
      glVertexAttribPointer 1 3 GL_FLOAT False 32 12, glEnableVertexAttribArray 1,
      glVertexAttribPointer 2 2 GL_FLOAT False 32 24, glEnableVertexAttribArray 2,
      glBindVertexArray 0]"

text \<open>The calls that create, select, configure or fill a texture.\<close>

fun texture_call :: "gl_call \<Rightarrow> bool" where
  "texture_call (glGenTextures n) = True"
| "texture_call (glBindTexture t n) = True"
| "texture_call (glTexParameteri t p v) = True"
| "texture_call (glTexImage2D t l f w h b g y) = True"
| "texture_call (glGenerateMipmap t) = True"
| "texture_call (glActiveTexture u) = True"
| "texture_call c = False"

text \<open>The calls that release a vertex array or a buffer.\<close>

fun delete_call :: "gl_call \<Rightarrow> bool" where
  "delete_call (glDeleteVertexArrays n) = True"
| "delete_call (glDeleteBuffers n) = True"
| "delete_call c = False"

text \<open>
  The meshes reachable from a node in depth-first order, a node's own meshes before those
  of its children.
\<close>

fun reachable_meshes :: "aiNode \<Rightarrow> nat list" where
  "reachable_meshes (aiNode ks cs) = ks @ concat (map reachable_meshes cs)"

text \<open>A mesh the loader can flatten and upload without reading outside an array.\<close>

definition loadable :: "aiScene \<Rightarrow> aiMesh \<Rightarrow> bool" where
  "loadable scene mesh =
     (arrays_ok mesh \<and> mMaterialIndex mesh < length (mMaterials scene)
      \<and> 0 < mNumVertices mesh \<and> concat (map mIndices (mFaces mesh)) \<noteq> [])"

text \<open>The pixel format inferred from a component count.\<close>

definition pixel_format :: "int \<Rightarrow> gl_enum" where
  "pixel_format n = (if n = 1 then GL_RED else if n = 3 then GL_RGB else GL_RGBA)"

text \<open>The calls that create and configure texture \<open>t\<close>, before the image is decoded.\<close>

definition texture_setup_calls :: "GLuint \<Rightarrow> gl_call list" where
  "texture_setup_calls t =
     [glGenTextures t, glBindTexture GL_TEXTURE_2D t,
      glTexParameteri GL_TEXTURE_2D GL_TEXTURE_WRAP_S GL_REPEAT,
      glTexParameteri GL_TEXTURE_2D GL_TEXTURE_WRAP_T GL_REPEAT,
      glTexParameteri GL_TEXTURE_2D GL_TEXTURE_MIN_FILTER GL_LINEAR_MIPMAP_LINEAR,
      glTexParameteri GL_TEXTURE_2D GL_TEXTURE_MAG_FILTER GL_LINEAR]"

text \<open>The scene file of a model, and the file of a texture the scene names.\<close>

definition model_file :: "string \<Rightarrow> string" where
  "model_file model_name = PREFIX_RELATIVE_PATH @ ''/'' @ model_name @ ''/'' @ model_name @ ''.obj''"

definition texture_file :: "string \<Rightarrow> string \<Rightarrow> string" where
  "texture_file model_name texturePath = PREFIX_RELATIVE_PATH @ ''/'' @ model_name @ ''/'' @ texturePath"

text \<open>Mesh \<open>m\<close> is the flattening of the scene's mesh number \<open>k\<close>.\<close>

definition flattens :: "aiScene \<Rightarrow> Mesh \<Rightarrow> nat \<Rightarrow> bool" where
  "flattens scene m k =
     (k < length (mMeshes scene)
      \<and> vertices m = interleaved (mMeshes scene ! k)
      \<and> indices m = concat (map mIndices (mFaces (mMeshes scene ! k))))"

subsection \<open>A small scene\<close>

text \<open>
  One triangle with normals and one texture-coordinate channel, a material that names a
  diffuse texture and one that names none, and a root node with one child.
\<close>

definition triangle :: aiMesh where
  "triangle =
     \<lparr> mVertices = [aiVector3D 0 0 0, aiVector3D 1 0 0, aiVector3D 0 1 0],
       mNormals = Some [aiVector3D 0 0 1, aiVector3D 0 0 1, aiVector3D 0 0 1],
       mTextureCoords = (\<lambda>c. if c = 0 then Some [aiVector3D 0 0 0, aiVector3D 1 0 0, aiVector3D 0 1 0]
                               else None),
       mFaces = [aiFace [0, 1, 2]],
       mMaterialIndex = 0 \<rparr>"

definition plain_triangle :: aiMesh where
  "plain_triangle = triangle\<lparr>mNormals := None, mTextureCoords := (\<lambda>c. None), mMaterialIndex := 1\<rparr>"

text \<open>
  A square of two triangles: four vertices with normals, no texture coordinates, two
  faces, the bare material.
\<close>

definition quad :: aiMesh where
  "quad =
     \<lparr> mVertices = [aiVector3D 0 0 0, aiVector3D 1 0 0, aiVector3D 1 1 0, aiVector3D 0 1 0],
       mNormals = Some [aiVector3D 0 0 1, aiVector3D 0 0 1, aiVector3D 0 0 1, aiVector3D 0 0 1],
       mTextureCoords = (\<lambda>c. None),
       mFaces = [aiFace [0, 1, 2], aiFace [2, 3, 0]],
       mMaterialIndex = 1 \<rparr>"

definition skin :: aiMaterial where
  "skin = aiMaterial (\<lambda>t k. if t = aiTextureType_DIFFUSE \<and> k = 0 then Some ''skin.png'' else None)"

definition bare :: aiMaterial where
  "bare = aiMaterial (\<lambda>t k. None)"

definition small_scene :: aiScene where
  "small_scene =
     \<lparr> mFlags = 0,
       mRootNode = Some (aiNode [1] [aiNode [0] []]),
       mMeshes = [triangle, plain_triangle],
       mMaterials = [skin, bare] \<rparr>"

text \<open>Files: every model name reads as the small scene; no image decodes.\<close>

definition small_env :: env where
  "small_env =
     \<lparr> stbi_load = (\<lambda>p. None),
       ReadFile = (\<lambda>p. Some small_scene),
       GetErrorString = (\<lambda>p. []) \<rparr>"

text \<open>Files: nothing can be read.\<close>

definition empty_env :: env where
  "empty_env =
     \<lparr> stbi_load = (\<lambda>p. None),
       ReadFile = (\<lambda>p. None),
       GetErrorString = (\<lambda>p. ''Unable to open file'') \<rparr>"

text \<open>Files: every image decodes to two by two pixels of the given component count.\<close>

definition decoding_env :: "int \<Rightarrow> env" where
  "decoding_env n =
     \<lparr> stbi_load = (\<lambda>p. Some \<lparr> width = 2, height = 2, nrChannels = n \<rparr>),
       ReadFile = (\<lambda>p. Some small_scene),
       GetErrorString = (\<lambda>p. []) \<rparr>"

section \<open>Properties\<close>

subsection \<open>Keyboard input\<close>

lemma outside_if_key:
  "(\<And>h. outside_position_and_speed (body h) = outside_position_and_speed h) \<Longrightarrow>
     outside_position_and_speed (if_key k body g) = outside_position_and_speed g"
  by (simp add: if_key_def)

lemma outside_cameraPos: "outside_position_and_speed (g\<lparr>cameraPos := p\<rparr>) = outside_position_and_speed g"
  by (simp add: outside_position_and_speed_def)

lemma outside_cameraSpeed: "outside_position_and_speed (g\<lparr>cameraSpeed := v\<rparr>) = outside_position_and_speed g"
  by (simp add: outside_position_and_speed_def)

lemma outside_processKeyboard:
  "outside_position_and_speed (processKeyboard g) = outside_position_and_speed g"
  by (simp add: processKeyboard_def Let_def outside_if_key outside_cameraPos)

lemma outside_processKeyboardInput:
  "outside_position_and_speed (processKeyboardInput g) = outside_position_and_speed g"
  by (simp add: processKeyboardInput_def Let_def outside_if_key outside_cameraPos outside_cameraSpeed)

lemma outside_eqD:
  assumes "outside_position_and_speed h = outside_position_and_speed g"
  shows "h = g\<lparr>cameraPos := cameraPos h, cameraSpeed := cameraSpeed h\<rparr>"
    and "yaw h = yaw g" and "pitch h = pitch g"
    and "cameraFront h = cameraFront g" and "cameraUp h = cameraUp g"
  using assms by (cases g, cases h, simp add: outside_position_and_speed_def)+

lemma if_key_speed:
  "(\<And>h. cameraSpeed (body h) = cameraSpeed h) \<Longrightarrow> cameraSpeed (if_key k body g) = cameraSpeed g"
  by (simp add: if_key_def)

lemma processKeyboard_speed: "cameraSpeed (processKeyboard g) = cameraSpeed g"
  by (simp add: processKeyboard_def Let_def if_key_speed)

text \<open>
  C10. Keyboard processing changes only the camera position and, in the variant with the
  speed keys, the movement speed: yaw, pitch, the front vector and the up vector (and the
  mouse baseline, the first-sample flag and the key table) are what they were before.
\<close>

theorem keyboard_frame:
  "processKeyboard g = g\<lparr>cameraPos := cameraPos (processKeyboard g)\<rparr>
   \<and> processKeyboardInput g =
       g\<lparr>cameraPos := cameraPos (processKeyboardInput g),
         cameraSpeed := cameraSpeed (processKeyboardInput g)\<rparr>
   \<and> yaw (processKeyboard g) = yaw g \<and> pitch (processKeyboard g) = pitch g
   \<and> cameraFront (processKeyboard g) = cameraFront g
   \<and> cameraUp (processKeyboard g) = cameraUp g
   \<and> yaw (processKeyboardInput g) = yaw g \<and> pitch (processKeyboardInput g) = pitch g
   \<and> cameraFront (processKeyboardInput g) = cameraFront g
   \<and> cameraUp (processKeyboardInput g) = cameraUp g"
proof -
  note a = outside_eqD [OF outside_processKeyboard, of g]
  note b = outside_eqD [OF outside_processKeyboardInput, of g]
  have "processKeyboard g = g\<lparr>cameraPos := cameraPos (processKeyboard g)\<rparr>"
    using a(1) by (simp add: processKeyboard_speed)
  with a(2-5) b show ?thesis by simp
qed

subsection \<open>The vertex loop and the index loop\<close>

lemma elem_at_Some: "elem_at xs i = Some v \<longleftrightarrow> i < length xs \<and> v = xs ! i"
  by (auto simp: elem_at_def)

lemma elem_at_None: "elem_at xs i = None \<longleftrightarrow> length xs \<le> i"
  by (auto simp: elem_at_def)

lemma vertex_body_Some:
  "vertex_body mesh i vs = Some r \<Longrightarrow> r = vs @ vertex_group mesh i"
  by (auto simp: vertex_body_def elem_at_Some vertex_group_def HasNormals_def Let_def
           mNumVertices_def split: Option.bind_splits if_splits option.splits)

lemma vertex_loop_Some:
  "vertex_loop mesh i vs = Some r \<Longrightarrow>
     r = vs @ concat (map (vertex_group mesh) [i..<mNumVertices mesh])"
proof (induction mesh i vs rule: vertex_loop.induct)
  case (1 mesh i vs)
  show ?case
  proof (cases "i < mNumVertices mesh")
    case False
    with "1.prems" show ?thesis by (simp add: vertex_loop.simps)
  next
    case True
    from True "1.prems" obtain vs' where
      body: "vertex_body mesh i vs = Some vs'" and step: "vertex_loop mesh (Suc i) vs' = Some r"
      by (subst (asm) vertex_loop.simps) (auto split: Option.bind_splits)
    have "r = vs' @ concat (map (vertex_group mesh) [Suc i..<mNumVertices mesh])"
      using "1.IH" [OF True body step] .
    with True vertex_body_Some [OF body] show ?thesis by (simp add: upt_conv_Cons)
  qed
qed

lemma vertex_body_ok:
  "arrays_ok mesh \<Longrightarrow> i < mNumVertices mesh \<Longrightarrow> vertex_body mesh i vs = Some (vs @ vertex_group mesh i)"
  by (auto simp: vertex_body_def elem_at_def vertex_group_def HasNormals_def Let_def arrays_ok_def
         mNumVertices_def split: option.splits)

lemma vertex_loop_ok:
  "arrays_ok mesh \<Longrightarrow>
     vertex_loop mesh i vs = Some (vs @ concat (map (vertex_group mesh) [i..<mNumVertices mesh]))"
proof (induction mesh i vs rule: vertex_loop.induct)
  case (1 mesh i vs)
  show ?case
  proof (cases "i < mNumVertices mesh")
    case False
    then show ?thesis by (simp add: vertex_loop.simps)
  next
    case True
    have "vertex_loop mesh i vs = vertex_loop mesh (Suc i) (vs @ vertex_group mesh i)"
      using True vertex_body_ok [OF "1.prems" True] by (subst vertex_loop.simps) simp
    also have "\<dots> = Some ((vs @ vertex_group mesh i) @
                        concat (map (vertex_group mesh) [Suc i..<mNumVertices mesh]))"
      using "1.IH" [OF True vertex_body_ok [OF "1.prems" True] "1.prems"] .
    finally show ?thesis using True by (simp add: upt_conv_Cons)
  qed
qed

lemma length_vertex_group: "length (vertex_group mesh i) = 8"
  by (simp add: vertex_group_def Let_def)

lemma length_interleaved: "length (interleaved mesh) = 8 * mNumVertices mesh"
  by (simp add: interleaved_def length_concat comp_def length_vertex_group sum_list_triv)

lemma foldl_push_back: "foldl (\<lambda>ixs ix. ixs @ [ix]) acc xs = acc @ xs"
  by (induction xs arbitrary: acc) simp_all

lemma index_loop_concat: "index_loop mesh = concat (map mIndices (mFaces mesh))"
proof -
  have "foldl (\<lambda>ixs face. foldl (\<lambda>ixs ix. ixs @ [ix]) ixs (mIndices face)) acc fs
        = acc @ concat (map mIndices fs)" for acc fs
    by (induction fs arbitrary: acc) (simp_all add: foldl_push_back)
  then show ?thesis by (simp add: index_loop_def)
qed


lemma elem_at_0: "elem_at xs 0 = None \<longleftrightarrow> xs = []"
  by (simp add: elem_at_def)

subsection \<open>The blocks of processMesh\<close>

lemma gl_fields [simp]:
  "gl_calls (gl c w) = gl_calls w @ [c]"
  "next_vertex_array (gl c w) = next_vertex_array w"
  "next_buffer (gl c w) = next_buffer w"
  "next_texture (gl c w) = next_texture w"
  "cerr (gl c w) = cerr w"
  by (simp_all add: gl_def)

lemma mesh_buffers_None: "vs = [] \<or> ixs = [] \<Longrightarrow> mesh_buffers vs ixs w = None"
  by (auto simp: mesh_buffers_def elem_at_def gen_vertex_array_def gen_buffer_def Let_def)

lemma mesh_buffers_Some:
  assumes "vs \<noteq> []" and "ixs \<noteq> []"
  shows "\<exists>w'. mesh_buffers vs ixs w = Some ((next_vertex_array w, next_buffer w, next_buffer w + 1), w')
          \<and> gl_calls w' = gl_calls w
               @ upload_calls (next_vertex_array w) (next_buffer w) (next_buffer w + 1) vs ixs
          \<and> next_vertex_array w' = next_vertex_array w + 1
          \<and> next_buffer w' = next_buffer w + 1 + 1
          \<and> next_texture w' = next_texture w \<and> cerr w' = cerr w"
  using assms
  by (simp add: mesh_buffers_def elem_at_def gen_vertex_array_def gen_buffer_def Let_def
        upload_calls_def sizeof_GLfloat_def sizeof_GLuint_def)


lemma print_cerr_fields [simp]:
  "gl_calls (print_cerr l w) = gl_calls w"
  "next_vertex_array (print_cerr l w) = next_vertex_array w"
  "next_buffer (print_cerr l w) = next_buffer w"
  "next_texture (print_cerr l w) = next_texture w"
  "cerr (print_cerr l w) = cerr w @ [l]"
  by (simp_all add: print_cerr_def)

lemma loadTextureFromFile_id: "fst (loadTextureFromFile e p w) = next_texture w"
  by (simp add: loadTextureFromFile_def gen_texture_def Let_def split: option.splits)

lemma loadTextureFromFile_names:
  "next_texture (snd (loadTextureFromFile e p w)) = next_texture w + 1"
  "next_vertex_array (snd (loadTextureFromFile e p w)) = next_vertex_array w"
  "next_buffer (snd (loadTextureFromFile e p w)) = next_buffer w"
  by (simp_all add: loadTextureFromFile_def gen_texture_def Let_def split: option.splits)

lemma loadTextureFromFile_decoded:
  "stbi_load e p = Some img \<Longrightarrow>
     gl_calls (snd (loadTextureFromFile e p w)) = gl_calls w @ texture_setup_calls (next_texture w)
       @ [glTexImage2D GL_TEXTURE_2D 0 (pixel_format (nrChannels img)) (width img) (height img) 0
            (pixel_format (nrChannels img)) GL_UNSIGNED_BYTE,
          glGenerateMipmap GL_TEXTURE_2D, glBindTexture GL_TEXTURE_2D 0]
     \<and> cerr (snd (loadTextureFromFile e p w)) = cerr w"
  by (simp add: loadTextureFromFile_def gen_texture_def Let_def texture_setup_calls_def pixel_format_def)

lemma loadTextureFromFile_failed:
  "stbi_load e p = None \<Longrightarrow>
     gl_calls (snd (loadTextureFromFile e p w)) = gl_calls w @ texture_setup_calls (next_texture w)
       @ [glBindTexture GL_TEXTURE_2D 0]
     \<and> cerr (snd (loadTextureFromFile e p w)) = cerr w @ [''Texture failed to load at path: '' @ p]"
  by (simp add: loadTextureFromFile_def gen_texture_def Let_def texture_setup_calls_def)


lemma loadTexture_some:
  "GetTexture material type 0 = Some tp \<Longrightarrow>
     loadTexture e material type model_name w
       = loadTextureFromFile e (PREFIX_RELATIVE_PATH @ ''/'' @ model_name @ ''/'' @ tp) w"
  by (simp add: loadTexture_def)

lemma loadTexture_names:
  "next_vertex_array (snd (loadTexture e material type model_name w)) = next_vertex_array w"
  "next_buffer (snd (loadTexture e material type model_name w)) = next_buffer w"
  by (simp_all add: loadTexture_def loadTextureFromFile_names split: option.splits)

lemma mesh_textures_eq:
  "mesh_textures e mesh scene model_name w =
     (case elem_at (mMaterials scene) (mMaterialIndex mesh) of
        None \<Rightarrow> None
      | Some material \<Rightarrow>
          Some (if fst (loadTexture e material aiTextureType_DIFFUSE model_name w) \<noteq> 0
                then [\<lparr> id_of = fst (loadTexture e material aiTextureType_DIFFUSE model_name w),
                         type_of = ''texture_diffuse'', path_of = ''diffuse'' \<rparr>]
                else [],
                snd (loadTexture e material aiTextureType_DIFFUSE model_name w)))"
  by (simp add: mesh_textures_def Let_def split: option.splits prod.splits)

lemma processMesh_SomeD:
  assumes "processMesh e mesh scene model_name w0 = Some (m, w')"
  shows "\<exists>material w1.
           vertex_loop mesh 0 [] = Some (vertices m) \<and> vertices m \<noteq> []
           \<and> indices m = index_loop mesh \<and> indices m \<noteq> []
           \<and> elem_at (mMaterials scene) (mMaterialIndex mesh) = Some material
           \<and> mesh_textures e mesh scene model_name w0 = Some (textures m, w1)
           \<and> w1 = snd (loadTexture e material aiTextureType_DIFFUSE model_name w0)
           \<and> VAO m = next_vertex_array w0 \<and> VBO m = next_buffer w0 \<and> EBO m = next_buffer w0 + 1
           \<and> gl_calls w' = gl_calls w1 @ upload_calls (VAO m) (VBO m) (EBO m) (vertices m) (indices m)
           \<and> next_vertex_array w' = next_vertex_array w0 + 1
           \<and> next_buffer w' = next_buffer w0 + 1 + 1
           \<and> next_texture w' = next_texture w1 \<and> cerr w' = cerr w1"
proof -
  from assms obtain vs ts w1 vao vbo ebo where
    vs: "vertex_loop mesh 0 [] = Some vs"
    and ts: "mesh_textures e mesh scene model_name w0 = Some (ts, w1)"
    and bf: "mesh_buffers vs (index_loop mesh) w1 = Some ((vao, vbo, ebo), w')"
    and m: "m = \<lparr> vertices = vs, indices = index_loop mesh, textures = ts, VAO = vao, VBO = vbo, EBO = ebo \<rparr>"
    by (auto simp: processMesh_def Let_def split: Option.bind_splits prod.splits)
  from bf have ne: "vs \<noteq> []" "index_loop mesh \<noteq> []"
    using mesh_buffers_None [of vs "index_loop mesh" w1] by auto
  from mesh_buffers_Some [OF ne, of w1] bf
  have names: "vao = next_vertex_array w1" "vbo = next_buffer w1" "ebo = next_buffer w1 + 1"
    and w': "gl_calls w' = gl_calls w1 @ upload_calls vao vbo ebo vs (index_loop mesh)"
      "next_vertex_array w' = next_vertex_array w1 + 1" "next_buffer w' = next_buffer w1 + 1 + 1"
      "next_texture w' = next_texture w1" "cerr w' = cerr w1"
    by auto
  from ts obtain material where
    mat: "elem_at (mMaterials scene) (mMaterialIndex mesh) = Some material"
    and w1: "w1 = snd (loadTexture e material aiTextureType_DIFFUSE model_name w0)"
    by (auto simp: mesh_textures_eq split: option.splits)
  from w1 have "next_vertex_array w1 = next_vertex_array w0" "next_buffer w1 = next_buffer w0"
    by (simp_all add: loadTexture_names)
  with vs ts ne names w' mat w1 m show ?thesis by simp
qed

lemma processMesh_ok:
  assumes "loadable scene mesh"
  shows "\<exists>m w'. processMesh e mesh scene model_name w = Some (m, w')"
proof -
  from assms have ok: "arrays_ok mesh" and mat: "mMaterialIndex mesh < length (mMaterials scene)"
    and nv: "0 < mNumVertices mesh" and ni: "index_loop mesh \<noteq> []"
    by (simp_all add: loadable_def index_loop_concat)
  have vs: "vertex_loop mesh 0 [] = Some (interleaved mesh)"
    using vertex_loop_ok [OF ok, of 0 "[]"] by (simp add: interleaved_def)
  from nv have "length (interleaved mesh) \<noteq> 0" by (simp add: length_interleaved)
  then have ne: "interleaved mesh \<noteq> []" by auto
  from mat obtain ts w1 where ts: "mesh_textures e mesh scene model_name w = Some (ts, w1)"
    by (auto simp: mesh_textures_eq elem_at_def)
  from mesh_buffers_Some [OF ne ni, of w1] obtain w' where
    "mesh_buffers (interleaved mesh) (index_loop mesh) w1
       = Some ((next_vertex_array w1, next_buffer w1, next_buffer w1 + 1), w')"
    by blast
  with vs ts show ?thesis by (simp add: processMesh_def Let_def)
qed


lemma mesh_buffers_None_iff: "mesh_buffers vs ixs w = None \<longleftrightarrow> vs = [] \<or> ixs = []"
proof (cases "vs = [] \<or> ixs = []")
  case True
  then show ?thesis by (simp add: mesh_buffers_None)
next
  case False
  then obtain w' where
    "mesh_buffers vs ixs w = Some ((next_vertex_array w, next_buffer w, next_buffer w + 1), w')"
    using mesh_buffers_Some [of vs ixs w] by blast
  with False show ?thesis by simp
qed

lemma processMesh_flat:
  assumes "processMesh e mesh scene model_name w = Some (m, w')"
  shows "vertices m = interleaved mesh" and "indices m = concat (map mIndices (mFaces mesh))"
proof -
  from processMesh_SomeD [OF assms] have vs: "vertex_loop mesh 0 [] = Some (vertices m)"
    and ix: "indices m = index_loop mesh" by auto
  from vertex_loop_Some [OF vs] show "vertices m = interleaved mesh"
    by (simp add: interleaved_def)
  from ix show "indices m = concat (map mIndices (mFaces mesh))"
    by (simp add: index_loop_concat)
qed

subsection \<open>The walk over the node tree\<close>

lemma node_meshes_Some:
  "node_meshes e ks scene model_name (ld, w) = Some (ld', w') \<Longrightarrow>
     \<exists>ms. meshes ld' = meshes ld @ ms \<and> list_all2 (flattens scene) ms ks"
proof (induction ks arbitrary: ld w)
  case Nil
  then show ?case by simp
next
  case (Cons k ks)
  from Cons.prems obtain mesh m w1 where
    k: "elem_at (mMeshes scene) k = Some mesh"
    and pm: "processMesh e mesh scene model_name w = Some (m, w1)"
    and rest: "node_meshes e ks scene model_name (ld\<lparr>meshes := meshes ld @ [m]\<rparr>, w1) = Some (ld', w')"
    by (auto split: Option.bind_splits)
  from Cons.IH [OF rest] obtain ms where
    ms: "meshes ld' = (meshes ld @ [m]) @ ms" "list_all2 (flattens scene) ms ks"
    by auto
  from k processMesh_flat [OF pm] have "flattens scene m k"
    by (simp add: flattens_def elem_at_Some)
  with ms show ?case by (intro exI [of _ "m # ms"]) simp
qed

lemma processNode_Some:
  "processNode e n scene model_name lw = Some lw' \<Longrightarrow>
     \<exists>ms. meshes (fst lw') = meshes (fst lw) @ ms
          \<and> list_all2 (flattens scene) ms (reachable_meshes n)"
  and node_children_Some:
  "node_children e cs scene model_name lw = Some lw' \<Longrightarrow>
     \<exists>ms. meshes (fst lw') = meshes (fst lw) @ ms
          \<and> list_all2 (flattens scene) ms (concat (map reachable_meshes cs))"
proof (induction e n scene model_name lw and e cs scene model_name lw
       arbitrary: lw' and lw' rule: processNode_node_children.induct)
  case (1 e ks cs scene model_name lw)
  from "1.prems" obtain lw1 where
    own: "node_meshes e ks scene model_name lw = Some lw1"
    and kids: "node_children e cs scene model_name lw1 = Some lw'"
    by (auto split: Option.bind_splits)
  from node_meshes_Some [of e ks scene model_name "fst lw" "snd lw" "fst lw1" "snd lw1"] own
  obtain ms1 where ms1: "meshes (fst lw1) = meshes (fst lw) @ ms1" "list_all2 (flattens scene) ms1 ks"
    by auto
  from "1.IH" [OF own kids] obtain ms2 where
    ms2: "meshes (fst lw') = meshes (fst lw1) @ ms2"
      "list_all2 (flattens scene) ms2 (concat (map reachable_meshes cs))"
    by auto
  from ms1 ms2 show ?case
    by (intro exI [of _ "ms1 @ ms2"]) (simp add: list_all2_appendI)
next
  case (2 e scene model_name lw)
  then show ?case by simp
next
  case (3 e c cs scene model_name lw)
  from "3.prems" obtain lw1 where
    first: "processNode e c scene model_name lw = Some lw1"
    and rest: "node_children e cs scene model_name lw1 = Some lw'"
    by (auto split: Option.bind_splits)
  from "3.IH"(1) [OF first] obtain ms1 where
    ms1: "meshes (fst lw1) = meshes (fst lw) @ ms1" "list_all2 (flattens scene) ms1 (reachable_meshes c)"
    by auto
  from "3.IH"(2) [OF first rest] obtain ms2 where
    ms2: "meshes (fst lw') = meshes (fst lw1) @ ms2"
      "list_all2 (flattens scene) ms2 (concat (map reachable_meshes cs))"
    by auto
  from ms1 ms2 show ?case
    by (intro exI [of _ "ms1 @ ms2"]) (simp add: list_all2_appendI)
qed


lemma node_meshes_ok:
  "list_all (\<lambda>k. k < length (mMeshes scene) \<and> loadable scene (mMeshes scene ! k)) ks \<Longrightarrow>
     \<exists>lw'. node_meshes e ks scene model_name lw = Some lw'"
proof (induction ks arbitrary: lw)
  case Nil
  then show ?case by simp
next
  case (Cons k ks)
  obtain ld w where lw: "lw = (ld, w)" by (cases lw)
  from Cons.prems have k: "elem_at (mMeshes scene) k = Some (mMeshes scene ! k)"
    and ok: "loadable scene (mMeshes scene ! k)"
    and rest: "list_all (\<lambda>k. k < length (mMeshes scene) \<and> loadable scene (mMeshes scene ! k)) ks"
    by (simp_all add: elem_at_def)
  from processMesh_ok [OF ok] obtain m w1 where
    pm: "processMesh e (mMeshes scene ! k) scene model_name w = Some (m, w1)" by blast
  from Cons.IH [OF rest] obtain lw' where
    "node_meshes e ks scene model_name (ld\<lparr>meshes := meshes ld @ [m]\<rparr>, w1) = Some lw'" by blast
  with k pm lw show ?case by simp
qed

lemma processNode_ok:
  "list_all (\<lambda>k. k < length (mMeshes scene) \<and> loadable scene (mMeshes scene ! k))
       (reachable_meshes n) \<Longrightarrow>
     \<exists>lw'. processNode e n scene model_name lw = Some lw'"
  and node_children_ok:
  "list_all (\<lambda>k. k < length (mMeshes scene) \<and> loadable scene (mMeshes scene ! k))
       (concat (map reachable_meshes cs)) \<Longrightarrow>
     \<exists>lw'. node_children e cs scene model_name lw = Some lw'"
proof (induction e n scene model_name lw and e cs scene model_name lw
       rule: processNode_node_children.induct)
  case (1 e ks cs scene model_name lw)
  from "1.prems" have own: "list_all (\<lambda>k. k < length (mMeshes scene) \<and> loadable scene (mMeshes scene ! k)) ks"
    and kids: "list_all (\<lambda>k. k < length (mMeshes scene) \<and> loadable scene (mMeshes scene ! k))
                 (concat (map reachable_meshes cs))"
    by simp_all
  from node_meshes_ok [OF own] obtain lw1 where
    lw1: "node_meshes e ks scene model_name lw = Some lw1" by blast
  from "1.IH" [OF lw1 kids] lw1 show ?case by simp
next
  case (2 e scene model_name lw)
  show ?case by simp
next
  case (3 e c cs scene model_name lw)
  from "3.prems" have first: "list_all (\<lambda>k. k < length (mMeshes scene) \<and> loadable scene (mMeshes scene ! k))
                 (reachable_meshes c)"
    and rest: "list_all (\<lambda>k. k < length (mMeshes scene) \<and> loadable scene (mMeshes scene ! k))
                 (concat (map reachable_meshes cs))"
    by simp_all
  from "3.IH"(1) [OF first] obtain lw1 where
    lw1: "processNode e c scene model_name lw = Some lw1" by blast
  from "3.IH"(2) [OF lw1 rest] lw1 show ?case by simp
qed

lemma loadModel_failed:
  assumes "ReadFile e (model_file model_name) = None
           \<or> (\<exists>scene. ReadFile e (model_file model_name) = Some scene
                \<and> (mFlags scene AND AI_SCENE_FLAGS_INCOMPLETE \<noteq> 0 \<or> mRootNode scene = None))"
  shows "loadModel e model_name (ld, w)
           = Some (ld\<lparr>meshes := []\<rparr>,
                   print_cerr (''ERROR::ASSIMP:: '' @ GetErrorString e (model_file model_name)) w)"
  using assms by (auto simp: loadModel_def model_file_def Let_def split: option.splits)

lemma loadModel_walk:
  assumes "ReadFile e (model_file model_name) = Some scene"
    and "mFlags scene AND AI_SCENE_FLAGS_INCOMPLETE = 0"
    and "mRootNode scene = Some r"
  shows "loadModel e model_name (ld, w) = processNode e r scene model_name (ld\<lparr>meshes := []\<rparr>, w)"
  using assms by (simp add: loadModel_def model_file_def Let_def)

lemma loadModel_clears: "loadModel e model_name (ld, w) = loadModel e model_name (ld\<lparr>meshes := []\<rparr>, w)"
  by (simp add: loadModel_def Let_def split: option.splits)

subsection \<open>Drawing, and calls that are never made\<close>


lemma draw_mesh_textured:
  "textures m = t # ts \<Longrightarrow>
     draw_mesh m w = w\<lparr>gl_calls := gl_calls w @
        [glActiveTexture GL_TEXTURE0, glBindTexture GL_TEXTURE_2D (id_of t),
         glBindVertexArray (VAO m),
         glDrawElements GL_TRIANGLES (length (indices m)) GL_UNSIGNED_INT 0,
         glBindVertexArray 0]\<rparr>"
  by (simp add: draw_mesh_def gl_def Let_def)




lemma filter_upload_calls [simp]:
  "filter texture_call (upload_calls a b c vs ixs) = []"
  "filter delete_call (upload_calls a b c vs ixs) = []"
  by (simp_all add: upload_calls_def)

lemma filter_delete_setup [simp]: "filter delete_call (texture_setup_calls t) = []"
  by (simp add: texture_setup_calls_def)

lemma loadTextureFromFile_no_delete:
  "filter delete_call (gl_calls (snd (loadTextureFromFile e p w))) = filter delete_call (gl_calls w)"
proof (cases "stbi_load e p")
  case None
  from loadTextureFromFile_failed [OF this, of w] show ?thesis by simp
next
  case (Some img)
  from loadTextureFromFile_decoded [OF this, of w] show ?thesis by simp
qed

lemma loadTexture_no_delete:
  "filter delete_call (gl_calls (snd (loadTexture e material type model_name w)))
     = filter delete_call (gl_calls w)"
  by (simp add: loadTexture_def loadTextureFromFile_no_delete split: option.splits)

lemma processMesh_no_delete:
  assumes "processMesh e mesh scene model_name w = Some (m, w')"
  shows "filter delete_call (gl_calls w') = filter delete_call (gl_calls w)"
proof -
  from processMesh_SomeD [OF assms] obtain material w1 where
    "w1 = snd (loadTexture e material aiTextureType_DIFFUSE model_name w)"
    "gl_calls w' = gl_calls w1 @ upload_calls (VAO m) (VBO m) (EBO m) (vertices m) (indices m)"
    by auto
  then show ?thesis by (simp add: loadTexture_no_delete)
qed

lemma node_meshes_no_delete:
  "node_meshes e ks scene model_name (ld, w) = Some (ld', w') \<Longrightarrow>
     filter delete_call (gl_calls w') = filter delete_call (gl_calls w)"
proof (induction ks arbitrary: ld w)
  case Nil
  then show ?case by simp
next
  case (Cons k ks)
  from Cons.prems obtain mesh m w1 where
    pm: "processMesh e mesh scene model_name w = Some (m, w1)"
    and rest: "node_meshes e ks scene model_name (ld\<lparr>meshes := meshes ld @ [m]\<rparr>, w1) = Some (ld', w')"
    by (auto split: Option.bind_splits)
  from Cons.IH [OF rest] processMesh_no_delete [OF pm] show ?case by simp
qed

lemma processNode_no_delete:
  "processNode e n scene model_name lw = Some lw' \<Longrightarrow>
     filter delete_call (gl_calls (snd lw')) = filter delete_call (gl_calls (snd lw))"
  and node_children_no_delete:
  "node_children e cs scene model_name lw = Some lw' \<Longrightarrow>
     filter delete_call (gl_calls (snd lw')) = filter delete_call (gl_calls (snd lw))"
proof (induction e n scene model_name lw and e cs scene model_name lw
       arbitrary: lw' and lw' rule: processNode_node_children.induct)
  case (1 e ks cs scene model_name lw)
  from "1.prems" obtain lw1 where
    own: "node_meshes e ks scene model_name lw = Some lw1"
    and kids: "node_children e cs scene model_name lw1 = Some lw'"
    by (auto split: Option.bind_splits)
  from node_meshes_no_delete [of e ks scene model_name "fst lw" "snd lw" "fst lw1" "snd lw1"] own
  have "filter delete_call (gl_calls (snd lw1)) = filter delete_call (gl_calls (snd lw))" by simp
  with "1.IH" [OF own kids] show ?case by simp
next
  case (2 e scene model_name lw)
  then show ?case by simp
next
  case (3 e c cs scene model_name lw)
  from "3.prems" obtain lw1 where
    first: "processNode e c scene model_name lw = Some lw1"
    and rest: "node_children e cs scene model_name lw1 = Some lw'"
    by (auto split: Option.bind_splits)
  from "3.IH"(1) [OF first] "3.IH"(2) [OF first rest] show ?case by simp
qed

lemma loadModel_no_delete:
  assumes "loadModel e model_name (ld, w) = Some (ld', w')"
  shows "filter delete_call (gl_calls w') = filter delete_call (gl_calls w)"
proof (cases "ReadFile e (model_file model_name) = None
           \<or> (\<exists>scene. ReadFile e (model_file model_name) = Some scene
                \<and> (mFlags scene AND AI_SCENE_FLAGS_INCOMPLETE \<noteq> 0 \<or> mRootNode scene = None))")
  case True
  from loadModel_failed [OF True, of ld w] assms show ?thesis by auto
next
  case False
  then obtain scene r where "ReadFile e (model_file model_name) = Some scene"
    "mFlags scene AND AI_SCENE_FLAGS_INCOMPLETE = 0" "mRootNode scene = Some r"
    by auto
  from loadModel_walk [OF this, of ld w] assms
  have "processNode e r scene model_name (ld\<lparr>meshes := []\<rparr>, w) = Some (ld', w')" by simp
  from processNode_no_delete [OF this] show ?thesis by simp
qed

section \<open>The loader: what it builds and when it stops\<close>

lemma group_of_concat:
  assumes "\<And>j. length (f j) = k" and "i < n"
  shows "take k (drop (k * i) (concat (map f [0..<n]))) = f i"
  using assms(2)
proof (induction n)
  case 0
  then show ?case by simp
next
  case (Suc n)
  have len: "length (concat (map f [0..<n])) = k * n"
    by (simp add: length_concat comp_def assms(1) sum_list_triv)
  show ?case
  proof (cases "i < n")
    case True
    then have "k * Suc i \<le> k * n"
      by (intro mult_le_mono2) simp
    then have "k * i + k \<le> k * n" by simp
    with len True Suc.IH show ?thesis by simp
  next
    case False
    with Suc.prems have "i = n" by simp
    with len assms(1) show ?thesis by simp
  qed
qed

text \<open>
  C3. Every mesh \<open>processMesh\<close> returns has as vertex array the interleaved sequence of
  eight values per source vertex, group \<open>i\<close> at offset \<open>8 * i\<close>, and as index array the
  concatenation of the faces' indices in order; \<open>processMesh\<close> does return such a mesh
  for every mesh whose arrays and material index are in range and that has a vertex and a
  face index; and the group of vertex \<open>i\<close> is its three position components, then its
  three normal components or three zeros when the mesh has no normals, then the two
  coordinates of the first texture-coordinate channel or two zeros when the mesh has none.
  The single triangle gives eight values for each of its three vertices and exactly three
  indices.
\<close>

theorem processMesh_layout:
  "(processMesh e mesh scene model_name w = Some (m, w') \<longrightarrow>
      vertices m = interleaved mesh
      \<and> length (vertices m) = 8 * mNumVertices mesh
      \<and> (\<forall>i<mNumVertices mesh. take 8 (drop (8 * i) (vertices m)) = vertex_group mesh i)
      \<and> indices m = concat (map mIndices (mFaces mesh)))
   \<and> (loadable scene mesh \<longrightarrow>
        (\<exists>r v. processMesh e mesh scene model_name w = Some (r, v)
           \<and> vertices r = interleaved mesh
           \<and> length (vertices r) = 8 * mNumVertices mesh
           \<and> indices r = concat (map mIndices (mFaces mesh))))
   \<and> vertex_group mesh k =
        [ai_x (mVertices mesh ! k), ai_y (mVertices mesh ! k), ai_z (mVertices mesh ! k)]
        @ (case mNormals mesh of
             None \<Rightarrow> [0, 0, 0]
           | Some normals \<Rightarrow> [ai_x (normals ! k), ai_y (normals ! k), ai_z (normals ! k)])
        @ (case mTextureCoords mesh 0 of
             None \<Rightarrow> [0, 0]
           | Some coords \<Rightarrow> [ai_x (coords ! k), ai_y (coords ! k)])"
proof -
  have layout: "vertices r = interleaved mesh
      \<and> length (vertices r) = 8 * mNumVertices mesh
      \<and> (\<forall>i<mNumVertices mesh. take 8 (drop (8 * i) (vertices r)) = vertex_group mesh i)
      \<and> indices r = concat (map mIndices (mFaces mesh))"
    if pm: "processMesh e mesh scene model_name w = Some (r, v)" for r v
  proof -
    note flat = processMesh_flat [OF pm]
    have "take 8 (drop (8 * i) (interleaved mesh)) = vertex_group mesh i"
      if "i < mNumVertices mesh" for i
      unfolding interleaved_def using length_vertex_group that by (rule group_of_concat)
    with flat show ?thesis by (simp add: length_interleaved)
  qed
  have produced: "\<exists>r v. processMesh e mesh scene model_name w = Some (r, v)
           \<and> vertices r = interleaved mesh
           \<and> length (vertices r) = 8 * mNumVertices mesh
           \<and> indices r = concat (map mIndices (mFaces mesh))"
    if "loadable scene mesh"
  proof -
    from processMesh_ok [OF that] obtain r v where
      pm: "processMesh e mesh scene model_name w = Some (r, v)" by blast
    from layout [OF pm] pm show ?thesis by blast
  qed
  have group: "vertex_group mesh k =
        [ai_x (mVertices mesh ! k), ai_y (mVertices mesh ! k), ai_z (mVertices mesh ! k)]
        @ (case mNormals mesh of
             None \<Rightarrow> [0, 0, 0]
           | Some normals \<Rightarrow> [ai_x (normals ! k), ai_y (normals ! k), ai_z (normals ! k)])
        @ (case mTextureCoords mesh 0 of
             None \<Rightarrow> [0, 0]
           | Some coords \<Rightarrow> [ai_x (coords ! k), ai_y (coords ! k)])"
    by (simp add: vertex_group_def Let_def split: option.splits)
  from layout [of m w'] produced group show ?thesis by blast
qed

lemma loadable_triangle: "loadable small_scene triangle"
  by (simp add: loadable_def arrays_ok_def triangle_def small_scene_def mNumVertices_def)

lemma loadable_plain_triangle: "loadable small_scene plain_triangle"
  by (simp add: loadable_def arrays_ok_def triangle_def plain_triangle_def small_scene_def
        mNumVertices_def)

lemma loadable_quad: "loadable small_scene quad"
  by (simp add: loadable_def arrays_ok_def quad_def small_scene_def mNumVertices_def)

lemma interleaved_triangle:
  "interleaved triangle = [0, 0, 0, 0, 0, 1, 0, 0,  1, 0, 0, 0, 0, 1, 1, 0,  0, 1, 0, 0, 0, 1, 0, 1]"
  by (simp add: interleaved_def vertex_group_def triangle_def mNumVertices_def upt_conv_Cons)

lemma interleaved_plain_triangle:
  "interleaved plain_triangle = [0, 0, 0, 0, 0, 0, 0, 0,  1, 0, 0, 0, 0, 0, 0, 0,  0, 1, 0, 0, 0, 0, 0, 0]"
  by (simp add: interleaved_def vertex_group_def triangle_def plain_triangle_def mNumVertices_def
        upt_conv_Cons)

lemma interleaved_quad:
  "interleaved quad = [0, 0, 0, 0, 0, 1, 0, 0,  1, 0, 0, 0, 0, 1, 0, 0,
                       1, 1, 0, 0, 0, 1, 0, 0,  0, 1, 0, 0, 0, 1, 0, 0]"
  by (simp add: interleaved_def vertex_group_def quad_def mNumVertices_def upt_conv_Cons)

theorem processMesh_layout_witness:
  "(\<exists>m w'. processMesh small_env triangle small_scene ''monster'' fresh_world = Some (m, w')
      \<and> vertices m = [0, 0, 0, 0, 0, 1, 0, 0,  1, 0, 0, 0, 0, 1, 1, 0,  0, 1, 0, 0, 0, 1, 0, 1]
      \<and> length (vertices m) = 8 * 3
      \<and> take 8 (drop (8 * 1) (vertices m)) = [1, 0, 0, 0, 0, 1, 1, 0]
      \<and> indices m = [0, 1, 2])
   \<and> (\<exists>m w'. processMesh small_env plain_triangle small_scene ''monster'' fresh_world = Some (m, w')
      \<and> vertices m = [0, 0, 0, 0, 0, 0, 0, 0,  1, 0, 0, 0, 0, 0, 0, 0,  0, 1, 0, 0, 0, 0, 0, 0]
      \<and> length (vertices m) = 8 * 3
      \<and> indices m = [0, 1, 2])
   \<and> (\<exists>m w'. processMesh small_env quad small_scene ''monster'' fresh_world = Some (m, w')
      \<and> vertices m = [0, 0, 0, 0, 0, 1, 0, 0,  1, 0, 0, 0, 0, 1, 0, 0,
                       1, 1, 0, 0, 0, 1, 0, 0,  0, 1, 0, 0, 0, 1, 0, 0]
      \<and> length (vertices m) = 8 * 4
      \<and> indices m = [0, 1, 2, 2, 3, 0])
   \<and> vertex_group plain_triangle 1 = [1, 0, 0] @ [0, 0, 0] @ [0, 0]
   \<and> vertex_group quad 2 = [1, 1, 0] @ [0, 0, 1] @ [0, 0]"
proof -
  have a: "\<exists>m w'. processMesh small_env triangle small_scene ''monster'' fresh_world = Some (m, w')
      \<and> vertices m = [0, 0, 0, 0, 0, 1, 0, 0,  1, 0, 0, 0, 0, 1, 1, 0,  0, 1, 0, 0, 0, 1, 0, 1]
      \<and> length (vertices m) = 8 * 3
      \<and> take 8 (drop (8 * 1) (vertices m)) = [1, 0, 0, 0, 0, 1, 1, 0]
      \<and> indices m = [0, 1, 2]"
  proof -
    from processMesh_layout [of small_env triangle small_scene "''monster''" fresh_world]
      loadable_triangle
    obtain r v where pm: "processMesh small_env triangle small_scene ''monster'' fresh_world = Some (r, v)"
      and flat: "vertices r = interleaved triangle" "indices r = concat (map mIndices (mFaces triangle))"
      by blast
    from flat have "vertices r = [0, 0, 0, 0, 0, 1, 0, 0,  1, 0, 0, 0, 0, 1, 1, 0,  0, 1, 0, 0, 0, 1, 0, 1]"
      "indices r = [0, 1, 2]"
      by (simp_all add: interleaved_triangle) (simp add: triangle_def)
    with pm show ?thesis by simp
  qed
  have b: "\<exists>m w'. processMesh small_env plain_triangle small_scene ''monster'' fresh_world = Some (m, w')
      \<and> vertices m = [0, 0, 0, 0, 0, 0, 0, 0,  1, 0, 0, 0, 0, 0, 0, 0,  0, 1, 0, 0, 0, 0, 0, 0]
      \<and> length (vertices m) = 8 * 3
      \<and> indices m = [0, 1, 2]"
  proof -
    from processMesh_layout [of small_env plain_triangle small_scene "''monster''" fresh_world]
      loadable_plain_triangle
    obtain r v where pm: "processMesh small_env plain_triangle small_scene ''monster'' fresh_world = Some (r, v)"
      and flat: "vertices r = interleaved plain_triangle"
        "indices r = concat (map mIndices (mFaces plain_triangle))"
      by blast
    from flat have "vertices r = [0, 0, 0, 0, 0, 0, 0, 0,  1, 0, 0, 0, 0, 0, 0, 0,  0, 1, 0, 0, 0, 0, 0, 0]"
      "indices r = [0, 1, 2]"
      by (simp_all add: interleaved_plain_triangle) (simp add: plain_triangle_def triangle_def)
    with pm show ?thesis by simp
  qed
  have c: "\<exists>m w'. processMesh small_env quad small_scene ''monster'' fresh_world = Some (m, w')
      \<and> vertices m = [0, 0, 0, 0, 0, 1, 0, 0,  1, 0, 0, 0, 0, 1, 0, 0,
                       1, 1, 0, 0, 0, 1, 0, 0,  0, 1, 0, 0, 0, 1, 0, 0]
      \<and> length (vertices m) = 8 * 4
      \<and> indices m = [0, 1, 2, 2, 3, 0]"
  proof -
    from processMesh_layout [of small_env quad small_scene "''monster''" fresh_world]
      loadable_quad
    obtain r v where pm: "processMesh small_env quad small_scene ''monster'' fresh_world = Some (r, v)"
      and flat: "vertices r = interleaved quad" "indices r = concat (map mIndices (mFaces quad))"
      by blast
    from flat have "vertices r = [0, 0, 0, 0, 0, 1, 0, 0,  1, 0, 0, 0, 0, 1, 0, 0,
                       1, 1, 0, 0, 0, 1, 0, 0,  0, 1, 0, 0, 0, 1, 0, 0]"
      "indices r = [0, 1, 2, 2, 3, 0]"
      by (simp_all add: interleaved_quad) (simp add: quad_def)
    with pm show ?thesis by simp
  qed
  have d: "vertex_group plain_triangle 1 = [1, 0, 0] @ [0, 0, 0] @ [0, 0]"
    using processMesh_layout [of small_env plain_triangle small_scene "''monster''" fresh_world
        _ _ 1]
    by (simp add: plain_triangle_def triangle_def)
  have e: "vertex_group quad 2 = [1, 1, 0] @ [0, 0, 1] @ [0, 0]"
    using processMesh_layout [of small_env quad small_scene "''monster''" fresh_world
        _ _ 2]
    by (simp add: quad_def)
  from a b c d e show ?thesis by blast
qed

text \<open>
  C9. The buffer block takes the address of element 0 of both vectors: it has a result
  exactly when neither vector is empty. So \<open>processMesh\<close> has no result for a mesh
  without vertices or without face indices, and for a mesh whose arrays and material index
  are in range it has a result exactly when there is at least one vertex and at least one
  face index.
\<close>

theorem upload_needs_element_0:
  "(mesh_buffers vs ixs w = None \<longleftrightarrow> vs = [] \<or> ixs = [])
   \<and> (mNumVertices mesh = 0 \<or> concat (map mIndices (mFaces mesh)) = [] \<longrightarrow>
        processMesh e mesh scene model_name w = None)
   \<and> (arrays_ok mesh \<and> mMaterialIndex mesh < length (mMaterials scene) \<longrightarrow>
        (processMesh e mesh scene model_name w \<noteq> None
           \<longleftrightarrow> 0 < mNumVertices mesh \<and> concat (map mIndices (mFaces mesh)) \<noteq> []))"
proof -
  have need: "0 < mNumVertices mesh \<and> concat (map mIndices (mFaces mesh)) \<noteq> []"
    if "processMesh e mesh scene model_name w \<noteq> None"
  proof -
    from that obtain m w' where pm: "processMesh e mesh scene model_name w = Some (m, w')" by auto
    from processMesh_SomeD [OF pm] have ne: "length (vertices m) \<noteq> 0" "indices m \<noteq> []" by auto
    from processMesh_flat [OF pm]
    have eq: "length (vertices m) = 8 * mNumVertices mesh"
      "indices m = concat (map mIndices (mFaces mesh))"
      by (simp_all add: length_interleaved)
    from ne(1) eq(1) have "0 < mNumVertices mesh" by simp
    moreover from ne(2) eq(2) have "concat (map mIndices (mFaces mesh)) \<noteq> []" by simp
    ultimately show ?thesis by simp
  qed
  have enough: "processMesh e mesh scene model_name w \<noteq> None"
    if "arrays_ok mesh" "mMaterialIndex mesh < length (mMaterials scene)"
       "0 < mNumVertices mesh" "concat (map mIndices (mFaces mesh)) \<noteq> []"
    using processMesh_ok [of scene mesh e model_name w] that by (auto simp: loadable_def)
  have none: "processMesh e mesh scene model_name w = None"
    if "mNumVertices mesh = 0 \<or> concat (map mIndices (mFaces mesh)) = []"
  proof (rule ccontr)
    assume "processMesh e mesh scene model_name w \<noteq> None"
    from need [OF this] that show False by simp
  qed
  have iff: "processMesh e mesh scene model_name w \<noteq> None
               \<longleftrightarrow> 0 < mNumVertices mesh \<and> concat (map mIndices (mFaces mesh)) \<noteq> []"
    if "arrays_ok mesh \<and> mMaterialIndex mesh < length (mMaterials scene)"
    using need enough that by blast
  from none iff mesh_buffers_None_iff [of vs ixs w] show ?thesis by blast
qed


theorem upload_needs_element_0_witness:
  "mesh_buffers [] [0, 1, 2] fresh_world = None
   \<and> processMesh small_env (triangle\<lparr>mVertices := []\<rparr>) small_scene ''monster'' fresh_world = None
   \<and> processMesh small_env (triangle\<lparr>mFaces := []\<rparr>) small_scene ''monster'' fresh_world = None
   \<and> processMesh small_env triangle small_scene ''monster'' fresh_world \<noteq> None"
proof -
  have a: "mesh_buffers [] [0, 1, 2] fresh_world = None"
    using upload_needs_element_0 [of "[]" "[0, 1, 2]" fresh_world triangle small_env small_scene "''monster''"]
    by simp
  have b: "processMesh small_env (triangle\<lparr>mVertices := []\<rparr>) small_scene ''monster'' fresh_world = None"
    using upload_needs_element_0 [of "[]" "[]" fresh_world "triangle\<lparr>mVertices := []\<rparr>" small_env
        small_scene "''monster''"]
    by (simp add: mNumVertices_def)
  have c: "processMesh small_env (triangle\<lparr>mFaces := []\<rparr>) small_scene ''monster'' fresh_world = None"
    using upload_needs_element_0 [of "[]" "[]" fresh_world "triangle\<lparr>mFaces := []\<rparr>" small_env
        small_scene "''monster''"]
    by simp
  have d: "processMesh small_env triangle small_scene ''monster'' fresh_world \<noteq> None"
    using upload_needs_element_0 [of "[]" "[]" fresh_world triangle small_env small_scene "''monster''"]
    by (simp add: arrays_ok_def triangle_def small_scene_def mNumVertices_def)
  from a b c d show ?thesis by simp
qed

text \<open>
  C2. When the importer returns a null scene, a scene with the incomplete flag set, or a
  scene without a root node, \<open>loadModel\<close> returns normally with an empty list of meshes,
  one line on the error stream, and no graphics call made.
\<close>

theorem loadModel_aborts:
  assumes "ReadFile e (model_file model_name) = None
           \<or> (\<exists>scene. ReadFile e (model_file model_name) = Some scene
                \<and> (mFlags scene AND AI_SCENE_FLAGS_INCOMPLETE \<noteq> 0 \<or> mRootNode scene = None))"
  shows "\<exists>ld' w'. loadModel e model_name (ld, w) = Some (ld', w')
           \<and> meshes ld' = []
           \<and> cerr w' = cerr w @ [''ERROR::ASSIMP:: '' @ GetErrorString e (model_file model_name)]
           \<and> gl_calls w' = gl_calls w"
  using loadModel_failed [OF assms, of ld w] by simp

theorem loadModel_aborts_witness:
  "(\<exists>ld' w'. loadModel empty_env ''monster'' (\<lparr>meshes = []\<rparr>, fresh_world) = Some (ld', w')
       \<and> meshes ld' = [] \<and> cerr w' = [''ERROR::ASSIMP:: Unable to open file''] \<and> gl_calls w' = [])
   \<and> (\<exists>ld' w'. loadModel (small_env\<lparr>ReadFile := \<lambda>p. Some (small_scene\<lparr>mFlags := 1\<rparr>)\<rparr>) ''monster''
                   (\<lparr>meshes = []\<rparr>, fresh_world) = Some (ld', w')
       \<and> meshes ld' = [] \<and> cerr w' = [''ERROR::ASSIMP:: ''] \<and> gl_calls w' = [])
   \<and> (\<exists>ld' w'. loadModel (small_env\<lparr>ReadFile := \<lambda>p. Some (small_scene\<lparr>mRootNode := None\<rparr>)\<rparr>) ''monster''
                   (\<lparr>meshes = []\<rparr>, fresh_world) = Some (ld', w')
       \<and> meshes ld' = [] \<and> cerr w' = [''ERROR::ASSIMP:: ''] \<and> gl_calls w' = [])"
proof -
  have a: "\<exists>ld' w'. loadModel empty_env ''monster'' (\<lparr>meshes = []\<rparr>, fresh_world) = Some (ld', w')
       \<and> meshes ld' = [] \<and> cerr w' = [''ERROR::ASSIMP:: Unable to open file''] \<and> gl_calls w' = []"
    using loadModel_aborts [of empty_env "''monster''" "\<lparr>meshes = []\<rparr>" fresh_world]
    by (simp add: empty_env_def fresh_world_def)
  have b: "\<exists>ld' w'. loadModel (small_env\<lparr>ReadFile := \<lambda>p. Some (small_scene\<lparr>mFlags := 1\<rparr>)\<rparr>) ''monster''
                   (\<lparr>meshes = []\<rparr>, fresh_world) = Some (ld', w')
       \<and> meshes ld' = [] \<and> cerr w' = [''ERROR::ASSIMP:: ''] \<and> gl_calls w' = []"
    using loadModel_aborts [of "small_env\<lparr>ReadFile := \<lambda>p. Some (small_scene\<lparr>mFlags := 1\<rparr>)\<rparr>"
        "''monster''" "\<lparr>meshes = []\<rparr>" fresh_world]
    by (simp add: small_env_def fresh_world_def AI_SCENE_FLAGS_INCOMPLETE_def)
  have c: "\<exists>ld' w'. loadModel (small_env\<lparr>ReadFile := \<lambda>p. Some (small_scene\<lparr>mRootNode := None\<rparr>)\<rparr>) ''monster''
                   (\<lparr>meshes = []\<rparr>, fresh_world) = Some (ld', w')
       \<and> meshes ld' = [] \<and> cerr w' = [''ERROR::ASSIMP:: ''] \<and> gl_calls w' = []"
    using loadModel_aborts [of "small_env\<lparr>ReadFile := \<lambda>p. Some (small_scene\<lparr>mRootNode := None\<rparr>)\<rparr>"
        "''monster''" "\<lparr>meshes = []\<rparr>" fresh_world]
    by (simp add: small_env_def fresh_world_def)
  from a b c show ?thesis by blast
qed

text \<open>
  C8. For a decoded image the texture is created with repeat wrapping on both axes,
  tri-linear mip-mapped minification, and linear magnification; the image is uploaded in
  the format inferred from the component count (1 gives red, 3 gives RGB, 4 gives RGBA),
  and mipmaps are generated. Nothing is written to the error stream.
\<close>

theorem texture_upload:
  assumes "stbi_load e p = Some img"
  shows "fst (loadTextureFromFile e p w) = next_texture w
         \<and> gl_calls (snd (loadTextureFromFile e p w)) = gl_calls w @
             [glGenTextures (next_texture w),
              glBindTexture GL_TEXTURE_2D (next_texture w),
              glTexParameteri GL_TEXTURE_2D GL_TEXTURE_WRAP_S GL_REPEAT,
              glTexParameteri GL_TEXTURE_2D GL_TEXTURE_WRAP_T GL_REPEAT,
              glTexParameteri GL_TEXTURE_2D GL_TEXTURE_MIN_FILTER GL_LINEAR_MIPMAP_LINEAR,
              glTexParameteri GL_TEXTURE_2D GL_TEXTURE_MAG_FILTER GL_LINEAR,
              glTexImage2D GL_TEXTURE_2D 0 (pixel_format (nrChannels img)) (width img) (height img) 0
                (pixel_format (nrChannels img)) GL_UNSIGNED_BYTE,
              glGenerateMipmap GL_TEXTURE_2D,
              glBindTexture GL_TEXTURE_2D 0]
         \<and> (nrChannels img = 1 \<longrightarrow> pixel_format (nrChannels img) = GL_RED)
         \<and> (nrChannels img = 3 \<longrightarrow> pixel_format (nrChannels img) = GL_RGB)
         \<and> (nrChannels img = 4 \<longrightarrow> pixel_format (nrChannels img) = GL_RGBA)
         \<and> cerr (snd (loadTextureFromFile e p w)) = cerr w"
  using loadTextureFromFile_decoded [OF assms, of w]
  by (simp add: loadTextureFromFile_id texture_setup_calls_def pixel_format_def)

theorem texture_upload_witness:
  "fst (loadTextureFromFile (decoding_env 4) ''skin.png'' fresh_world) = 1
   \<and> gl_calls (snd (loadTextureFromFile (decoding_env 4) ''skin.png'' fresh_world)) =
       [glGenTextures 1,
        glBindTexture GL_TEXTURE_2D 1,
        glTexParameteri GL_TEXTURE_2D GL_TEXTURE_WRAP_S GL_REPEAT,
        glTexParameteri GL_TEXTURE_2D GL_TEXTURE_WRAP_T GL_REPEAT,
        glTexParameteri GL_TEXTURE_2D GL_TEXTURE_MIN_FILTER GL_LINEAR_MIPMAP_LINEAR,
        glTexParameteri GL_TEXTURE_2D GL_TEXTURE_MAG_FILTER GL_LINEAR,
        glTexImage2D GL_TEXTURE_2D 0 GL_RGBA 2 2 0 GL_RGBA GL_UNSIGNED_BYTE,
        glGenerateMipmap GL_TEXTURE_2D,
        glBindTexture GL_TEXTURE_2D 0]
   \<and> cerr (snd (loadTextureFromFile (decoding_env 4) ''skin.png'' fresh_world)) = []"
  using texture_upload [of "decoding_env 4" "''skin.png''" "\<lparr>width = 2, height = 2, nrChannels = 4\<rparr>"
      fresh_world]
  by (simp add: decoding_env_def fresh_world_def pixel_format_def)

lemma small_scene_facts:
  "ReadFile small_env p = Some small_scene"
  "stbi_load small_env p = None"
  "mFlags small_scene AND AI_SCENE_FLAGS_INCOMPLETE = 0"
  "mRootNode small_scene = Some (aiNode [1] [aiNode [0] []])"
  "mMeshes small_scene = [triangle, plain_triangle]"
  "elem_at (mMaterials small_scene) (mMaterialIndex triangle) = Some skin"
  "elem_at (mMaterials small_scene) (mMaterialIndex plain_triangle) = Some bare"
  "GetTexture skin aiTextureType_DIFFUSE 0 = Some ''skin.png''"
  "GetTexture bare aiTextureType_DIFFUSE 0 = None"
  by (simp_all add: small_env_def small_scene_def triangle_def plain_triangle_def skin_def bare_def
        elem_at_def)

lemma small_scene_loadable:
  "list_all (\<lambda>k. k < length (mMeshes small_scene) \<and> loadable small_scene (mMeshes small_scene ! k))
     (reachable_meshes (aiNode [1] [aiNode [0] []]))"
  using loadable_triangle loadable_plain_triangle by (simp add: small_scene_facts)

text \<open>
  C1, as the code behaves. With an image that fails to decode, in a fresh context:
  \<open>loadTextureFromFile\<close> writes the error line and returns the name it generated, 1,
  not 0; \<open>processMesh\<close> therefore records one texture, with id 1, for the mesh.
\<close>

theorem failed_decode_keeps_generated_name:
  "fst (loadTextureFromFile small_env (texture_file ''monster'' ''skin.png'') fresh_world) = 1
   \<and> cerr (snd (loadTextureFromFile small_env (texture_file ''monster'' ''skin.png'') fresh_world))
       = [''Texture failed to load at path: ../assets/models//monster/skin.png'']
   \<and> (\<exists>m w'. processMesh small_env triangle small_scene ''monster'' fresh_world = Some (m, w')
         \<and> textures m = [\<lparr> id_of = 1, type_of = ''texture_diffuse'', path_of = ''diffuse'' \<rparr>])"
proof -
  have a: "fst (loadTextureFromFile small_env (texture_file ''monster'' ''skin.png'') fresh_world) = 1"
    by (simp add: loadTextureFromFile_id fresh_world_def)
  have b: "cerr (snd (loadTextureFromFile small_env (texture_file ''monster'' ''skin.png'') fresh_world))
       = [''Texture failed to load at path: ../assets/models//monster/skin.png'']"
    using loadTextureFromFile_failed [OF small_scene_facts(2), of "texture_file ''monster'' ''skin.png''" fresh_world]
    by (simp add: fresh_world_def texture_file_def PREFIX_RELATIVE_PATH_def)
  from processMesh_ok [OF loadable_triangle] obtain m w' where
    pm: "processMesh small_env triangle small_scene ''monster'' fresh_world = Some (m, w')"
    by blast
  from processMesh_SomeD [OF pm] obtain w1 where
    "mesh_textures small_env triangle small_scene ''monster'' fresh_world = Some (textures m, w1)"
    by auto
  then have "textures m = [\<lparr> id_of = 1, type_of = ''texture_diffuse'', path_of = ''diffuse'' \<rparr>]"
    by (simp add: mesh_textures_eq small_scene_facts loadTexture_some loadTextureFromFile_id
          fresh_world_def)
  with a b pm show ?thesis by blast
qed

lemma destroy_deletes:
  "filter delete_call (gl_calls (destroy ld w)) =
     filter delete_call (gl_calls w)
       @ concat (map (\<lambda>m. [glDeleteVertexArrays (VAO m), glDeleteBuffers (VBO m), glDeleteBuffers (EBO m)])
                  (meshes ld))"
proof -
  have "filter delete_call (gl_calls (foldl (\<lambda>w mesh. gl (glDeleteBuffers (EBO mesh))
                       (gl (glDeleteBuffers (VBO mesh))
                          (gl (glDeleteVertexArrays (VAO mesh)) w))) w ms)) =
     filter delete_call (gl_calls w)
       @ concat (map (\<lambda>m. [glDeleteVertexArrays (VAO m), glDeleteBuffers (VBO m), glDeleteBuffers (EBO m)]) ms)"
    for ms
    by (induction ms arbitrary: w) simp_all
  then show ?thesis by (simp add: destroy_def)
qed

text \<open>
  C6, as the code behaves. Loading the small scene twice on one loader: after the second
  load the list holds the two meshes of that load only, and no call that releases a vertex
  array or a buffer has been made, while the destructor run after the first load would
  have made six.
\<close>

theorem reload_releases_nothing:
  "\<exists>ld1 w1 ld2 w2.
      loadModel small_env ''monster'' (\<lparr>meshes = []\<rparr>, fresh_world) = Some (ld1, w1)
      \<and> length (meshes ld1) = 2
      \<and> length (filter delete_call (gl_calls (destroy ld1 w1))) = 6
      \<and> loadModel small_env ''monster'' (ld1, w1) = Some (ld2, w2)
      \<and> length (meshes ld2) = 2
      \<and> filter delete_call (gl_calls w2) = []"
proof -
  note walk = loadModel_walk [OF small_scene_facts(1) small_scene_facts(3) small_scene_facts(4)]
  from processNode_ok [OF small_scene_loadable] obtain ld1 w1 where
    l1: "loadModel small_env ''monster'' (\<lparr>meshes = []\<rparr>, fresh_world) = Some (ld1, w1)"
    by (metis walk surj_pair)
  from processNode_ok [OF small_scene_loadable] obtain ld2 w2 where
    l2: "loadModel small_env ''monster'' (ld1, w1) = Some (ld2, w2)"
    by (metis walk surj_pair)
  from l1 have "processNode small_env (aiNode [1] [aiNode [0] []]) small_scene ''monster''
                  (\<lparr>meshes = []\<rparr>, fresh_world) = Some (ld1, w1)"
    by (simp add: walk)
  from processNode_Some [OF this] have n1: "length (meshes ld1) = 2"
    by (auto dest: list_all2_lengthD)
  from l2 have "processNode small_env (aiNode [1] [aiNode [0] []]) small_scene ''monster''
                  (ld1\<lparr>meshes := []\<rparr>, w1) = Some (ld2, w2)"
    by (simp add: walk)
  from processNode_Some [OF this] have n2: "length (meshes ld2) = 2"
    by (auto dest: list_all2_lengthD)
  from loadModel_no_delete [OF l1] have d1: "filter delete_call (gl_calls w1) = []"
    by (simp add: fresh_world_def)
  with loadModel_no_delete [OF l2] have d2: "filter delete_call (gl_calls w2) = []" by simp
  from d1 n1 have "length (filter delete_call (gl_calls (destroy ld1 w1))) = 6"
    by (simp add: destroy_deletes length_concat comp_def sum_list_triv)
  with l1 l2 n1 n2 d2 show ?thesis by blast
qed




text \<open>
  C4, amended. For a scene with a root node and without the incomplete flag, the meshes \<open>loadModel\<close> leaves in the
  loader are, one for one and in order, the flattenings of the meshes reachable from the
  root depth first, a node's own meshes before its children's; and the load has a result
  whenever every reachable mesh is in the scene and loadable.
\<close>

theorem loadModel_depth_first:
  assumes "ReadFile e (model_file model_name) = Some scene"
    and "mFlags scene AND AI_SCENE_FLAGS_INCOMPLETE = 0"
    and "mRootNode scene = Some r"
  shows "(\<forall>ld' w'. loadModel e model_name (ld, w) = Some (ld', w') \<longrightarrow>
            list_all2 (flattens scene) (meshes ld') (reachable_meshes r))
         \<and> (list_all (\<lambda>k. k < length (mMeshes scene) \<and> loadable scene (mMeshes scene ! k))
               (reachable_meshes r) \<longrightarrow>
             loadModel e model_name (ld, w) \<noteq> None)"
proof -
  note walk = loadModel_walk [OF assms, of ld w]
  have a: "list_all2 (flattens scene) (meshes ld') (reachable_meshes r)"
    if "loadModel e model_name (ld, w) = Some (ld', w')" for ld' w'
  proof -
    from that walk have "processNode e r scene model_name (ld\<lparr>meshes := []\<rparr>, w) = Some (ld', w')"
      by simp
    from processNode_Some [OF this] show ?thesis by simp
  qed
  have b: "loadModel e model_name (ld, w) \<noteq> None"
    if "list_all (\<lambda>k. k < length (mMeshes scene) \<and> loadable scene (mMeshes scene ! k))
          (reachable_meshes r)"
    using processNode_ok [OF that, of e model_name "(ld\<lparr>meshes := []\<rparr>, w)"] walk by auto
  from a b show ?thesis by blast
qed

theorem loadModel_depth_first_witness:
  "\<exists>ld' w'. loadModel small_env ''monster'' (\<lparr>meshes = []\<rparr>, fresh_world) = Some (ld', w')
      \<and> reachable_meshes (aiNode [1] [aiNode [0] []]) = [1, 0]
      \<and> map vertices (meshes ld') =
          [[0, 0, 0, 0, 0, 0, 0, 0,  1, 0, 0, 0, 0, 0, 0, 0,  0, 1, 0, 0, 0, 0, 0, 0],
           [0, 0, 0, 0, 0, 1, 0, 0,  1, 0, 0, 0, 0, 1, 1, 0,  0, 1, 0, 0, 0, 1, 0, 1]]
      \<and> map indices (meshes ld') = [[0, 1, 2], [0, 1, 2]]"
proof -
  note inst = loadModel_depth_first [OF small_scene_facts(1) small_scene_facts(3) small_scene_facts(4),
      of "''monster''" "\<lparr>meshes = []\<rparr>" fresh_world]
  from inst small_scene_loadable obtain ld' w' where
    l: "loadModel small_env ''monster'' (\<lparr>meshes = []\<rparr>, fresh_world) = Some (ld', w')"
    by auto
  with inst have "list_all2 (flattens small_scene) (meshes ld') (reachable_meshes (aiNode [1] [aiNode [0] []]))"
    by blast
  then obtain m1 m2 where ms: "meshes ld' = [m1, m2]"
    and f: "flattens small_scene m1 1" "flattens small_scene m2 0"
    by (auto simp: list_all2_Cons2)
  from f have "vertices m1 = interleaved plain_triangle" "vertices m2 = interleaved triangle"
    "indices m1 = [0, 1, 2]" "indices m2 = [0, 1, 2]"
    by (simp_all add: flattens_def small_scene_facts plain_triangle_def) (simp_all add: triangle_def)
  with l ms show ?thesis
    by (simp add: interleaved_triangle interleaved_plain_triangle)
qed

text \<open>
  C4 as stated fails: a scene with a root node that reaches two meshes, but with the
  incomplete flag set, loads as no mesh at all.
\<close>

theorem incomplete_scene_counterexample:
  "mRootNode (small_scene\<lparr>mFlags := 1\<rparr>) = Some (aiNode [1] [aiNode [0] []])
   \<and> reachable_meshes (aiNode [1] [aiNode [0] []]) = [1, 0]
   \<and> map_option (meshes \<circ> fst)
         (loadModel (small_env\<lparr>ReadFile := \<lambda>p. Some (small_scene\<lparr>mFlags := 1\<rparr>)\<rparr>) ''monster''
            (\<lparr>meshes = []\<rparr>, fresh_world)) = Some []"
proof -
  have "loadModel (small_env\<lparr>ReadFile := \<lambda>p. Some (small_scene\<lparr>mFlags := 1\<rparr>)\<rparr>) ''monster''
            (\<lparr>meshes = []\<rparr>, fresh_world)
        = Some (\<lparr>meshes = []\<rparr>\<lparr>meshes := []\<rparr>,
                print_cerr (''ERROR::ASSIMP:: '' @ GetErrorString
                   (small_env\<lparr>ReadFile := \<lambda>p. Some (small_scene\<lparr>mFlags := 1\<rparr>)\<rparr>)
                   (model_file ''monster'')) fresh_world)"
    by (rule loadModel_failed) (simp add: AI_SCENE_FLAGS_INCOMPLETE_def)
  then show ?thesis by (simp add: small_scene_facts)
qed

section \<open>Mouse look\<close>

lemma sphere_identity:
  fixes c1 s1 c2 s2 :: real
  assumes "c1\<^sup>2 + s1\<^sup>2 = 1" and "c2\<^sup>2 + s2\<^sup>2 = 1"
  shows "c1 * c2 * (c1 * c2) + s2 * s2 + s1 * c2 * (s1 * c2) = 1"
proof -
  have "c1 * c2 * (c1 * c2) + s2 * s2 + s1 * c2 * (s1 * c2) = (c1\<^sup>2 + s1\<^sup>2) * c2\<^sup>2 + s2\<^sup>2"
    by (simp add: power2_eq_square algebra_simps)
  with assms show ?thesis by simp
qed

lemma unit_spherical: "glm_dot (spherical a b) (spherical a b) = 1"
  unfolding spherical_def glm_dot.simps
  by (rule sphere_identity) (simp_all add: add.commute)

lemma normalize_spherical: "glm_normalize (spherical a b) = spherical a b"
  unfolding glm_normalize_def unit_spherical glm_inversesqrt_def
  by (simp add: spherical_def)

lemma mouse_body_front:
  "cameraFront (mouse_body k x y g) = spherical (yaw (mouse_body k x y g)) (pitch (mouse_body k x y g))"
  by (simp add: mouse_body_def Let_def normalize_spherical [unfolded spherical_def] spherical_def)

lemma mouse_body_baseline:
  "lastX (mouse_body k x y g) = x" "lastY (mouse_body k x y g) = y" "\<not> firstMouse (mouse_body k x y g)"
  by (simp_all add: mouse_body_def Let_def)

lemma mouse_body_first:
  "firstMouse g \<Longrightarrow> yaw (mouse_body k x y g) = yaw g"
  "firstMouse g \<Longrightarrow> pitch (mouse_body k x y g) = max (- 89) (min 89 (pitch g))"
  by (simp_all add: mouse_body_def Let_def)

lemma mouse_body_next:
  "\<not> firstMouse g \<Longrightarrow> yaw (mouse_body k x y g) = yaw g + (x - lastX g) * k"
  "\<not> firstMouse g \<Longrightarrow> pitch (mouse_body k x y g) = max (- 89) (min 89 (pitch g + (lastY g - y) * k))"
  by (simp_all add: mouse_body_def Let_def)

lemma mouse_body_pitch_range:
  "- 89 \<le> pitch (mouse_body k x y g)" "pitch (mouse_body k x y g) \<le> 89"
  by (simp_all add: mouse_body_def Let_def)

lemma mouse_events_snoc: "mouse_events (es @ [(x, y)]) g = mouseMotion x y (mouse_events es g)"
  by (induction es g rule: mouse_events.induct) simp_all

lemma mouse_movements_snoc:
  "mouse_movements (es @ [(x, y)]) g = processMouseMovement x y (mouse_movements es g)"
  by (induction es g rule: mouse_movements.induct) simp_all

lemma mouse_events_take_Suc:
  "i < length es \<Longrightarrow>
     mouse_events (take (Suc i) es) g = mouseMotion (fst (es ! i)) (snd (es ! i)) (mouse_events (take i es) g)"
  by (simp add: take_Suc_conv_app_nth) (metis mouse_events_snoc prod.collapse)

lemma mouse_movements_take_Suc:
  "i < length es \<Longrightarrow>
     mouse_movements (take (Suc i) es) g
       = processMouseMovement (fst (es ! i)) (snd (es ! i)) (mouse_movements (take i es) g)"
  by (simp add: take_Suc_conv_app_nth) (metis mouse_movements_snoc prod.collapse)

lemma mouse_events_baseline:
  assumes "0 < i" and "i \<le> length es"
  shows "\<not> firstMouse (mouse_events (take i es) g)"
    and "lastX (mouse_events (take i es) g) = real_of_int (fst (es ! (i - 1)))"
    and "lastY (mouse_events (take i es) g) = real_of_int (snd (es ! (i - 1)))"
proof -
  from assms obtain j where j: "i = Suc j" "j < length es" by (cases i) auto
  from mouse_events_take_Suc [OF j(2), of g] j
  show "\<not> firstMouse (mouse_events (take i es) g)"
    and "lastX (mouse_events (take i es) g) = real_of_int (fst (es ! (i - 1)))"
    and "lastY (mouse_events (take i es) g) = real_of_int (snd (es ! (i - 1)))"
    by (simp_all add: mouseMotion_def mouse_body_baseline)
qed

lemma mouse_movements_baseline:
  assumes "0 < i" and "i \<le> length es"
  shows "\<not> firstMouse (mouse_movements (take i es) g)"
    and "lastX (mouse_movements (take i es) g) = fst (es ! (i - 1))"
    and "lastY (mouse_movements (take i es) g) = snd (es ! (i - 1))"
proof -
  from assms obtain j where j: "i = Suc j" "j < length es" by (cases i) auto
  from mouse_movements_take_Suc [OF j(2), of g] j
  show "\<not> firstMouse (mouse_movements (take i es) g)"
    and "lastX (mouse_movements (take i es) g) = fst (es ! (i - 1))"
    and "lastY (mouse_movements (take i es) g) = snd (es ! (i - 1))"
    by (simp_all add: processMouseMovement_def mouse_body_baseline)
qed

lemma initial_globals_fields:
  "firstMouse initial_globals" "yaw initial_globals = - 90" "pitch initial_globals = 0"
  by (simp_all add: initial_globals_def)

text \<open>
  C5, amended. In any sequence of pointer positions delivered from the initial state, the
  first one leaves yaw and pitch as they were; event \<open>i > 0\<close> adds the horizontal
  difference to the previous position times the sensitivity to yaw, and subtracts the
  vertical difference times the sensitivity from pitch (the offset is the last y minus the
  new y), the pitch then clamped to the range from -89 to 89; after every event the pitch
  is in that range and the front vector is the spherical-to-Cartesian conversion of yaw and
  pitch. The sensitivity is 0.1 in \<open>mouseMotion\<close> and 0.05 in
  \<open>processMouseMovement\<close>.
\<close>

theorem mouse_look:
  assumes "i < length es" and "j < length fs"
  shows "(let before = mouse_events (take i es) initial_globals;
              after = mouse_events (take (Suc i) es) initial_globals
          in (i = 0 \<longrightarrow> yaw after = yaw initial_globals \<and> pitch after = pitch initial_globals)
           \<and> (0 < i \<longrightarrow>
                yaw after = yaw before + real_of_int (fst (es ! i) - fst (es ! (i - 1))) * 0.1
                \<and> pitch after = max (- 89) (min 89
                    (pitch before - real_of_int (snd (es ! i) - snd (es ! (i - 1))) * 0.1)))
           \<and> - 89 \<le> pitch after \<and> pitch after \<le> 89
           \<and> cameraFront after = spherical (yaw after) (pitch after))
       \<and> (let before = mouse_movements (take j fs) initial_globals;
               after = mouse_movements (take (Suc j) fs) initial_globals
           in (j = 0 \<longrightarrow> yaw after = yaw initial_globals \<and> pitch after = pitch initial_globals)
            \<and> (0 < j \<longrightarrow>
                 yaw after = yaw before + (fst (fs ! j) - fst (fs ! (j - 1))) * 0.05
                 \<and> pitch after = max (- 89) (min 89
                     (pitch before - (snd (fs ! j) - snd (fs ! (j - 1))) * 0.05)))
            \<and> - 89 \<le> pitch after \<and> pitch after \<le> 89
            \<and> cameraFront after = spherical (yaw after) (pitch after))"
proof -
  let ?b = "mouse_events (take i es) initial_globals"
  let ?a = "mouse_events (take (Suc i) es) initial_globals"
  have step: "?a = mouse_body 0.1 (real_of_int (fst (es ! i))) (real_of_int (snd (es ! i))) ?b"
    using mouse_events_take_Suc [OF assms(1)] by (simp add: mouseMotion_def)
  have first: "yaw ?a = yaw initial_globals \<and> pitch ?a = pitch initial_globals" if "i = 0"
    using that step by (simp add: mouse_body_first initial_globals_fields)
  have later: "yaw ?a = yaw ?b + real_of_int (fst (es ! i) - fst (es ! (i - 1))) * 0.1
      \<and> pitch ?a = max (- 89) (min 89 (pitch ?b - real_of_int (snd (es ! i) - snd (es ! (i - 1))) * 0.1))"
    if "0 < i"
  proof -
    from that assms(1) have le: "i \<le> length es" by simp
    note base = mouse_events_baseline [OF that le, of initial_globals]
    from step base show ?thesis by (simp add: mouse_body_next algebra_simps)
  qed
  have range: "- 89 \<le> pitch ?a \<and> pitch ?a \<le> 89"
    using step by (simp add: mouse_body_pitch_range)
  have front: "cameraFront ?a = spherical (yaw ?a) (pitch ?a)"
    unfolding step by (rule mouse_body_front)
  let ?d = "mouse_movements (take j fs) initial_globals"
  let ?c = "mouse_movements (take (Suc j) fs) initial_globals"
  have step': "?c = mouse_body 0.05 (fst (fs ! j)) (snd (fs ! j)) ?d"
    using mouse_movements_take_Suc [OF assms(2)] by (simp add: processMouseMovement_def)
  have first': "yaw ?c = yaw initial_globals \<and> pitch ?c = pitch initial_globals" if "j = 0"
    using that step' by (simp add: mouse_body_first initial_globals_fields)
  have later': "yaw ?c = yaw ?d + (fst (fs ! j) - fst (fs ! (j - 1))) * 0.05
      \<and> pitch ?c = max (- 89) (min 89 (pitch ?d - (snd (fs ! j) - snd (fs ! (j - 1))) * 0.05))"
    if "0 < j"
  proof -
    from that assms(2) have le: "j \<le> length fs" by simp
    note base = mouse_movements_baseline [OF that le, of initial_globals]
    from step' base show ?thesis by (simp add: mouse_body_next algebra_simps)
  qed
  have range': "- 89 \<le> pitch ?c \<and> pitch ?c \<le> 89"
    using step' by (simp add: mouse_body_pitch_range)
  have front': "cameraFront ?c = spherical (yaw ?c) (pitch ?c)"
    unfolding step' by (rule mouse_body_front)
  from first later range front first' later' range' front' show ?thesis
    unfolding Let_def by blast
qed

theorem mouse_look_witness:
  "yaw (mouse_events [(100, 100)] initial_globals) = - 90
   \<and> pitch (mouse_events [(100, 100)] initial_globals) = 0
   \<and> yaw (mouse_events [(100, 100), (130, 110)] initial_globals) = - 87
   \<and> pitch (mouse_events [(100, 100), (130, 110)] initial_globals) = - 1
   \<and> cameraFront (mouse_events [(100, 100), (130, 110)] initial_globals) = spherical (- 87) (- 1)
   \<and> pitch (mouse_events [(100, 100), (130, 2000)] initial_globals) = - 89
   \<and> yaw (mouse_movements [(100, 100), (130, 110)] initial_globals) = - 88.5
   \<and> pitch (mouse_movements [(100, 100), (130, 110)] initial_globals) = - 0.5"
proof -
  note a = mouse_look [of 0 "[(100, 100), (130, 110)]" 0 "[(100, 100), (130, 110)]", unfolded Let_def]
  note b = mouse_look [of 1 "[(100, 100), (130, 110)]" 1 "[(100, 100), (130, 110)]", unfolded Let_def]
  note c = mouse_look [of 1 "[(100, 100), (130, 2000)]" 0 "[(100, 100)]", unfolded Let_def]
  from a have a': "yaw (mouse_events [(100, 100)] initial_globals) = - 90"
    "pitch (mouse_events [(100, 100)] initial_globals) = 0"
    "yaw (mouse_movements [(100, 100)] initial_globals) = - 90"
    "pitch (mouse_movements [(100, 100)] initial_globals) = 0"
    by (simp_all add: initial_globals_fields)
  from b a' have b': "yaw (mouse_events [(100, 100), (130, 110)] initial_globals) = - 87"
    "pitch (mouse_events [(100, 100), (130, 110)] initial_globals) = - 1"
    "yaw (mouse_movements [(100, 100), (130, 110)] initial_globals) = - 88.5"
    "pitch (mouse_movements [(100, 100), (130, 110)] initial_globals) = - 0.5"
    and f: "cameraFront (mouse_events [(100, 100), (130, 110)] initial_globals)
        = spherical (yaw (mouse_events [(100, 100), (130, 110)] initial_globals))
            (pitch (mouse_events [(100, 100), (130, 110)] initial_globals))"
    by simp_all
  from c a' have c': "pitch (mouse_events [(100, 100), (130, 2000)] initial_globals) = - 89"
    by simp
  from a' b' f c' show ?thesis by simp
qed

lemma two_events:
  "yaw (mouse_events [(100, 100)] initial_globals) = - 90"
  "pitch (mouse_events [(100, 100)] initial_globals) = 0"
  "yaw (mouse_events [(100, 100), (130, 110)] initial_globals) = - 87"
  "pitch (mouse_events [(100, 100), (130, 110)] initial_globals) = - 1"
  by (simp_all add: mouseMotion_def mouse_body_first mouse_body_next mouse_body_baseline
        initial_globals_fields)

text \<open>
  C5 as stated fails: after a first position (100, 100), the position (130, 110) has the
  pointer delta (30, 10); the pitch goes from 0 to -1, not to 0 + 10 * 0.1.
\<close>

theorem mouse_pitch_sign_counterexample:
  "pitch (mouse_events [(100, 100)] initial_globals) = 0
   \<and> pitch (mouse_events [(100, 100), (130, 110)] initial_globals) = - 1
   \<and> pitch (mouse_events [(100, 100), (130, 110)] initial_globals)
       \<noteq> max (- 89) (min 89 (pitch (mouse_events [(100, 100)] initial_globals)
             + real_of_int (110 - 100) * 0.1))"
  using two_events by simp

end
